theory Spec2Isabelle
  imports Complex_Main
begin

section \<open>The memory tree: a shallow embedding of the per-frame animation logic\<close>

text \<open>
  The components of the scene (Foliage, Spiral, Ornaments, Overlay, Experience) are React
  function components. Each one is embedded as a record holding what the component keeps
  between calls (its refs and its memo cells) together with pure functions for the callback
  it registers with \<open>useFrame\<close> and for the values it builds inside \<open>useMemo\<close>.

  JavaScript numbers are embedded as \<^typ>\<open>real\<close>. Where a property turns on rounding, the
  rounding is part of the embedding: the progress value accumulated over a run of frames is
  stepped in IEEE double arithmetic (\<open>Foliage_progress_f64\<close>, \<open>Spiral_progress_f64\<close>), and the
  \<open>Float32Array\<close>s of Foliage hold what a store into them leaves, the nearest 32-bit float.
  Elsewhere the arithmetic of the source is read as exact. Counts and array indices are
  \<^typ>\<open>nat\<close>. \<open>Math.random()\<close> is embedded as an explicit sequence of draws
  \<open>rng :: nat \<Rightarrow> real\<close>.
\<close>

subsection \<open>Shared types\<close>

text \<open>
  Modelled from the spec: the enum \<open>TreeMorphState\<close> of \<open>../types\<close> is "a binary toggle state
  (tree-shape vs. scattered)"; the two members are the ones the components name.
\<close>

datatype TreeMorphState = TREE_SHAPE | SCATTERED

text \<open>The part of the render state that the frame callbacks read.\<close>

record RootState =
  clock_elapsedTime :: real
  viewport_dpr :: real

type_synonym Color = "real \<times> real \<times> real"

text \<open>
  The constants of \<open>../constants\<close>. Their values are not part of the sources at hand, so
  every definition that reads one takes the record as a parameter.
\<close>

record Constants =
  FOLIAGE_COUNT :: nat
  SPIRAL_PARTICLE_COUNT :: nat
  TREE_HEIGHT :: real
  TREE_RADIUS_BOTTOM :: real
  SCATTER_RADIUS :: real
  EMERALD_LIGHT :: Color
  GOLD_METALLIC :: Color

subsection \<open>IEEE rounding\<close>

text \<open>
  Round to the nearest integer, ties to the even one; and round to the nearest binary
  floating-point number of precision \<open>p\<close> whose least exponent is \<open>emin\<close> (below it the
  numbers are subnormal), the rounding of IEEE 754 that JavaScript's arithmetic and its
  typed arrays use. Overflow to infinity is not part of it: it is the rounding of values
  within the range of the format.
\<close>

definition round_even :: "real \<Rightarrow> int" where
  "round_even x =
     (let f = \<lfloor>x\<rfloor>; r = x - of_int f
      in if r < 1 / 2 then f else if 1 / 2 < r then f + 1 else if even f then f else f + 1)"

definition round_binary :: "nat \<Rightarrow> int \<Rightarrow> real \<Rightarrow> real" where
  "round_binary p emin x =
     (if x = 0 then 0
      else let e = max \<lfloor>log 2 \<bar>x\<bar>\<rfloor> emin;
               u = 2 powr (of_int e - (real p - 1))
           in of_int (round_even (x / u)) * u)"

text \<open>A JavaScript number (binary64) and an element of a \<open>Float32Array\<close> (binary32).\<close>

definition f64 :: "real \<Rightarrow> real" where
  "f64 = round_binary 53 (- 1022)"

definition f32 :: "real \<Rightarrow> real" where
  "f32 = round_binary 24 (- 126)"

subsection \<open>Foliage\<close>

record FoliageUniforms =
  fo_uTime :: real
  fo_uProgress :: real
  fo_uPixelRatio :: real
  fo_uColorBase :: Color
  fo_uColorGold :: Color

record FoliageGeometry =
  fo_positions :: "real list"
  fo_scatterPositions :: "real list"
  fo_randoms :: "real list"

text \<open>
  The state of one mounted Foliage: \<open>shaderRef\<close> (\<open>None\<close> is the \<open>null\<close> a ref holds while no
  material is attached; otherwise the uniforms of the attached material), the two progress
  refs, and the cell of the geometry \<open>useMemo\<close>.
\<close>

record Foliage =
  fo_shaderRef :: "FoliageUniforms option"
  fo_targetProgress :: real
  fo_currentProgress :: real
  fo_geometry :: "FoliageGeometry option"

text \<open>The callback given to \<open>useFrame\<close>; \<open>treeState\<close> is the prop of the current render.\<close>

definition Foliage_useFrame :: "TreeMorphState \<Rightarrow> RootState \<Rightarrow> real \<Rightarrow> Foliage \<Rightarrow> Foliage" where
  "Foliage_useFrame treeState state delta f =
     (case fo_shaderRef f of
        None \<Rightarrow> f
      | Some u \<Rightarrow>
          let target = (if treeState = TREE_SHAPE then 1 else 0);
              speed = 2 * delta;
              cur = fo_currentProgress f;
              cur' = (if cur < target then min (cur + speed) 1
                      else if cur > target then max (cur - speed) 0
                      else cur)
          in f\<lparr>fo_shaderRef :=
                 Some (u\<lparr>fo_uTime := clock_elapsedTime state,
                          fo_uPixelRatio := viewport_dpr state,
                          fo_uProgress := cur'\<rparr>),
               fo_targetProgress := target,
               fo_currentProgress := cur'\<rparr>)"

text \<open>
  The progress lines of the callback (\<open>targetProgress.current = ...\<close> to the end of the
  \<open>if\<close>) in double arithmetic: the new value of \<open>currentProgress.current\<close>, each product,
  sum and difference rounded to a double. \<open>Math.min\<close>, \<open>Math.max\<close> and the comparisons are
  exact.
\<close>

definition Foliage_progress_f64 :: "TreeMorphState \<Rightarrow> real \<Rightarrow> real \<Rightarrow> real" where
  "Foliage_progress_f64 treeState delta cur =
     (let target = (if treeState = TREE_SHAPE then 1.0 else 0.0);
          speed = f64 (2.0 * delta)
      in if cur < target then min (f64 (cur + speed)) 1.0
         else if cur > target then max (f64 (cur - speed)) 0.0
         else cur)"

subsection \<open>Spiral\<close>

record SpiralUniforms =
  sp_uTime :: real
  sp_uProgress :: real
  sp_uPixelRatio :: real
  sp_uColor :: Color

record SpiralGeometry =
  sp_treePositions :: "real list"
  sp_scatterPositions :: "real list"
  sp_lineProgress :: "real list"

record Spiral =
  sp_shaderRef :: "SpiralUniforms option"
  sp_currentProgress :: real
  sp_geometry :: "SpiralGeometry option"

definition Spiral_useFrame :: "TreeMorphState \<Rightarrow> RootState \<Rightarrow> real \<Rightarrow> Spiral \<Rightarrow> Spiral" where
  "Spiral_useFrame treeState state delta s =
     (case sp_shaderRef s of
        None \<Rightarrow> s
      | Some u \<Rightarrow>
          let target = (if treeState = TREE_SHAPE then 1 else 0);
              speed = 2 * delta;
              cur = sp_currentProgress s;
              cur' = (if cur < target then min (cur + speed) 1
                      else if cur > target then max (cur - speed) 0
                      else cur)
          in s\<lparr>sp_shaderRef :=
                 Some (u\<lparr>sp_uTime := clock_elapsedTime state,
                          sp_uPixelRatio := viewport_dpr state,
                          sp_uProgress := cur'\<rparr>),
               sp_currentProgress := cur'\<rparr>)"

text \<open>The progress lines of the Spiral callback in double arithmetic.\<close>

definition Spiral_progress_f64 :: "TreeMorphState \<Rightarrow> real \<Rightarrow> real \<Rightarrow> real" where
  "Spiral_progress_f64 treeState delta cur =
     (let target = (if treeState = TREE_SHAPE then 1.0 else 0.0);
          speed = f64 (2.0 * delta)
      in if cur < target then min (f64 (cur + speed)) 1.0
         else if cur > target then max (f64 (cur - speed)) 0.0
         else cur)"

subsection \<open>Ornaments\<close>

record Vec3 =
  vx :: real
  vy :: real
  vz :: real

text \<open>The fields of \<open>OrnamentData\<close> (\<open>../types\<close>), as \<open>generateData\<close> fills them.\<close>

record OrnamentData =
  od_id :: nat
  od_scale :: real
  od_color :: string
  od_scatterPos :: Vec3
  od_scatterRot :: Vec3
  od_treePos :: Vec3
  od_treeRot :: Vec3

text \<open>
  A \<open>THREE.Matrix4\<close> built by \<open>Object3D.updateMatrix\<close> is represented by the position,
  rotation and scale it is composed from; its translation part is the position.
\<close>

record Matrix4 =
  m_position :: Vec3
  m_rotation :: Vec3
  m_scale :: Vec3

record Object3D =
  o_position :: Vec3
  o_rotation :: Vec3
  o_scale :: Vec3
  o_matrix :: Matrix4

definition updateMatrix :: "Object3D \<Rightarrow> Object3D" where
  "updateMatrix ob =
     ob\<lparr>o_matrix := \<lparr>m_position = o_position ob, m_rotation = o_rotation ob, m_scale = o_scale ob\<rparr>\<rparr>"

text \<open>\<open>THREE.MathUtils.lerp(x, y, t)\<close> is \<open>(1 - t) * x + t * y\<close>.\<close>

definition lerp :: "real \<Rightarrow> real \<Rightarrow> real \<Rightarrow> real" where
  "lerp x y t = (1 - t) * x + t * y"

text \<open>
  The state of one mounted Ornaments: the progress ref, the instance matrices of the two
  instanced meshes (\<open>None\<close> while the ref is \<open>null\<close>), the two memoized data arrays, and the
  module-level \<open>tempObject\<close> that every instance update writes through.
\<close>

record Ornaments =
  or_progressRef :: real
  or_boxMeshRef :: "Matrix4 list option"
  or_sphereMeshRef :: "Matrix4 list option"
  or_boxData :: "OrnamentData list"
  or_sphereData :: "OrnamentData list"
  or_tempObject :: Object3D

text \<open>Step 1 of the frame callback: the new value of \<open>progressRef.current\<close>.\<close>

definition Ornaments_progress :: "TreeMorphState \<Rightarrow> real \<Rightarrow> real \<Rightarrow> real" where
  "Ornaments_progress treeState delta cur =
     (let target = (if treeState = TREE_SHAPE then 1 else 0);
          speed = 1.5 * delta
      in if cur < target then min (cur + speed) 1
         else if cur > target then max (cur - speed) 0
         else cur)"

definition easedT :: "real \<Rightarrow> real" where
  "easedT t = (if t < 0.5 then 4 * t * t * t else 1 - (-2 * t + 2) ^ 3 / 2)"

text \<open>The argument of \<open>tempObject.position.set\<close>, the same expression for boxes and spheres.\<close>

definition blend_position :: "OrnamentData \<Rightarrow> real \<Rightarrow> Vec3" where
  "blend_position d e =
     \<lparr>vx = lerp (vx (od_scatterPos d)) (vx (od_treePos d)) e,
      vy = lerp (vy (od_scatterPos d)) (vy (od_treePos d)) e,
      vz = lerp (vz (od_scatterPos d)) (vz (od_treePos d)) e\<rparr>"

text \<open>The body of \<open>boxData.forEach\<close>, up to and including \<open>updateMatrix\<close>.\<close>

definition box_body :: "real \<Rightarrow> real \<Rightarrow> real \<Rightarrow> OrnamentData \<Rightarrow> Object3D \<Rightarrow> Object3D" where
  "box_body t e time d tmp =
     (let tmp1 = tmp\<lparr>o_position := blend_position d e\<rparr>;
          tmp2 =
            (if t < 0.9 then
               let floatScale = (1 - t) * 0.5;
                   pos = o_position tmp1;
                   rot = o_rotation tmp1
               in tmp1\<lparr>o_position := pos\<lparr>vy := vy pos + sin (time + real (od_id d)) * floatScale\<rparr>,
                        o_rotation := rot\<lparr>vx := vx (od_scatterRot d) + time * 0.2 * (1 - t),
                                           vy := vy (od_scatterRot d) + time * 0.1 * (1 - t)\<rparr>\<rparr>
             else
               tmp1\<lparr>o_rotation :=
                      \<lparr>vx = lerp (vx (od_scatterRot d)) (vx (od_treeRot d)) e + time * 0.1,
                       vy = lerp (vy (od_scatterRot d)) (vy (od_treeRot d)) e + time * 0.1,
                       vz = lerp (vz (od_scatterRot d)) (vz (od_treeRot d)) e\<rparr>\<rparr>);
          tmp3 = tmp2\<lparr>o_scale := \<lparr>vx = od_scale d, vy = od_scale d, vz = od_scale d\<rparr>\<rparr>
      in updateMatrix tmp3)"

text \<open>The body of \<open>sphereData.forEach\<close>, up to and including \<open>updateMatrix\<close>.\<close>

definition sphere_body :: "real \<Rightarrow> real \<Rightarrow> OrnamentData \<Rightarrow> Object3D \<Rightarrow> Object3D" where
  "sphere_body e time d tmp =
     (let tmp1 = tmp\<lparr>o_position := blend_position d e\<rparr>;
          tmp2 = tmp1\<lparr>o_rotation := \<lparr>vx = vx (od_scatterRot d) + time * 0.5,
                                      vy = vy (od_scatterRot d) + time * 0.5,
                                      vz = 0\<rparr>\<rparr>;
          tmp3 = tmp2\<lparr>o_scale := \<lparr>vx = od_scale d, vy = od_scale d, vz = od_scale d\<rparr>\<rparr>
      in updateMatrix tmp3)"

text \<open>
  \<open>data.forEach((data, i) => { body; mesh.setMatrixAt(i, tempObject.matrix) })\<close>: the loop
  over the data array, from index \<open>i\<close> on, threading \<open>tempObject\<close> and the instance matrices.
  \<open>setMatrixAt\<close> writes into a typed array, where a write past the end is dropped, as
  \<open>list_update\<close> does.
\<close>

fun forEach_instance ::
  "(OrnamentData \<Rightarrow> Object3D \<Rightarrow> Object3D) \<Rightarrow> OrnamentData list \<Rightarrow> nat \<Rightarrow>
     Object3D \<times> Matrix4 list \<Rightarrow> Object3D \<times> Matrix4 list" where
  "forEach_instance body [] i (tmp, mesh) = (tmp, mesh)"
| "forEach_instance body (d # ds) i (tmp, mesh) =
     (let tmp' = body d tmp
      in forEach_instance body ds (Suc i) (tmp', mesh[i := o_matrix tmp']))"

definition Ornaments_useFrame ::
  "TreeMorphState \<Rightarrow> RootState \<Rightarrow> real \<Rightarrow> Ornaments \<Rightarrow> Ornaments" where
  "Ornaments_useFrame treeState state delta ob =
     (let t = Ornaments_progress treeState delta (or_progressRef ob);
          e = easedT t;
          time = clock_elapsedTime state;
          (tmp1, boxes) =
            (case or_boxMeshRef ob of
               None \<Rightarrow> (or_tempObject ob, None)
             | Some mesh \<Rightarrow>
                 let (tmp', mesh') =
                       forEach_instance (box_body t e time) (or_boxData ob) 0 (or_tempObject ob, mesh)
                 in (tmp', Some mesh'));
          (tmp2, spheres) =
            (case or_sphereMeshRef ob of
               None \<Rightarrow> (tmp1, None)
             | Some mesh \<Rightarrow>
                 let (tmp', mesh') =
                       forEach_instance (sphere_body e time) (or_sphereData ob) 0 (tmp1, mesh)
                 in (tmp', Some mesh'))
      in ob\<lparr>or_progressRef := t,
            or_boxMeshRef := boxes,
            or_sphereMeshRef := spheres,
            or_tempObject := tmp2\<rparr>)"

subsection \<open>Geometry generation (the bodies of the geometry \<open>useMemo\<close>s)\<close>

text \<open>
  One iteration of the \<open>for\<close> loop of Foliage, at index \<open>i\<close>. The loop state is the number
  \<open>k\<close> of draws taken from \<open>Math.random()\<close> so far and the three typed arrays; each call of
  \<open>Math.random()\<close> reads the next draw. The arrays are \<open>Float32Array\<close>s: a store keeps the
  32-bit float nearest to the value stored. The value itself is computed as the source
  writes it, read as exact arithmetic.
\<close>

definition Foliage_loop_body ::
  "Constants \<Rightarrow> (nat \<Rightarrow> real) \<Rightarrow> nat \<Rightarrow> nat \<times> FoliageGeometry \<Rightarrow> nat \<times> FoliageGeometry" where
  "Foliage_loop_body c rng i kg =
     (let k = fst kg; g = snd kg;
          t = real i / real (FOLIAGE_COUNT c);
          angle = t * pi * 2 * 30;
          y = - (TREE_HEIGHT c / 2) + t * TREE_HEIGHT c;
          radiusAtHeight = ((TREE_HEIGHT c / 2 - y) / TREE_HEIGHT c) * TREE_RADIUS_BOTTOM c;
          r = radiusAtHeight + (rng k - 0.5) * 1.5;
          x = cos angle * r;
          z = sin angle * r;
          pos = (fo_positions g)[i * 3 := f32 x, i * 3 + 1 := f32 y, i * 3 + 2 := f32 z];
          theta = rng (k + 1) * pi * 2;
          phi = arccos (2 * rng (k + 2) - 1);
          sr = SCATTER_RADIUS c * root 3 (rng (k + 3));
          sca = (fo_scatterPositions g)
                  [i * 3 := f32 (sr * sin phi * cos theta),
                   i * 3 + 1 := f32 (sr * sin phi * sin theta),
                   i * 3 + 2 := f32 (sr * cos phi)];
          rnd = (fo_randoms g)[i := f32 (rng (k + 4))]
      in (k + 5, \<lparr>fo_positions = pos, fo_scatterPositions = sca, fo_randoms = rnd\<rparr>))"

text \<open>The arrays as \<open>new Float32Array(n)\<close> leaves them: \<open>n\<close> zeros.\<close>

definition Foliage_generate :: "Constants \<Rightarrow> (nat \<Rightarrow> real) \<Rightarrow> FoliageGeometry" where
  "Foliage_generate c rng =
     snd (fold (Foliage_loop_body c rng) [0 ..< FOLIAGE_COUNT c]
            (0, \<lparr>fo_positions = replicate (FOLIAGE_COUNT c * 3) 0,
                 fo_scatterPositions = replicate (FOLIAGE_COUNT c * 3) 0,
                 fo_randoms = replicate (FOLIAGE_COUNT c) 0\<rparr>))"

definition Spiral_loop_body ::
  "Constants \<Rightarrow> (nat \<Rightarrow> real) \<Rightarrow> nat \<Rightarrow> nat \<times> SpiralGeometry \<Rightarrow> nat \<times> SpiralGeometry" where
  "Spiral_loop_body c rng i kg =
     (let k = fst kg; g = snd kg;
          turns = 6.0;
          heightOffset = 1.0;
          p = real i / real (SPIRAL_PARTICLE_COUNT c);
          y = - (TREE_HEIGHT c / 2) + p * TREE_HEIGHT c + heightOffset;
          rawRadius = ((TREE_HEIGHT c / 2 - (y - heightOffset)) / TREE_HEIGHT c) * TREE_RADIUS_BOTTOM c;
          r = max 0.1 (rawRadius + 0.6);
          angle = p * pi * 2 * turns;
          tPos = (sp_treePositions g)
                   [i * 3 := cos angle * r, i * 3 + 1 := y, i * 3 + 2 := sin angle * r];
          theta = rng k * pi * 2;
          phi = arccos (2 * rng (k + 1) - 1);
          sr = SCATTER_RADIUS c * 1.1 * root 3 (rng (k + 2));
          sPos = (sp_scatterPositions g)
                   [i * 3 := sr * sin phi * cos theta,
                    i * 3 + 1 := sr * sin phi * sin theta,
                    i * 3 + 2 := sr * cos phi];
          progress = (sp_lineProgress g)[i := p]
      in (k + 3, \<lparr>sp_treePositions = tPos, sp_scatterPositions = sPos, sp_lineProgress = progress\<rparr>))"

definition Spiral_generate :: "Constants \<Rightarrow> (nat \<Rightarrow> real) \<Rightarrow> SpiralGeometry" where
  "Spiral_generate c rng =
     snd (fold (Spiral_loop_body c rng) [0 ..< SPIRAL_PARTICLE_COUNT c]
            (0, \<lparr>sp_treePositions = replicate (SPIRAL_PARTICLE_COUNT c * 3) 0,
                 sp_scatterPositions = replicate (SPIRAL_PARTICLE_COUNT c * 3) 0,
                 sp_lineProgress = replicate (SPIRAL_PARTICLE_COUNT c) 0\<rparr>))"

subsection \<open>Rendering a component: refs and memo cells\<close>

text \<open>
  \<open>useMemo(factory, [])\<close>: with an empty dependency list the factory runs when the cell is
  still empty, and the stored value is returned on every later render.
\<close>

definition useMemo :: "(unit \<Rightarrow> 'a) \<Rightarrow> 'a option \<Rightarrow> 'a option" where
  "useMemo factory cell = (case cell of None \<Rightarrow> Some (factory ()) | Some v \<Rightarrow> Some v)"

text \<open>The hook state of Foliage before its first render: \<open>useRef(null)\<close>, \<open>useRef(0)\<close>, \<open>useRef(0)\<close>.\<close>

definition Foliage_initial :: Foliage where
  "Foliage_initial =
     \<lparr>fo_shaderRef = None, fo_targetProgress = 0, fo_currentProgress = 0, fo_geometry = None\<rparr>"

text \<open>
  One render of Foliage followed by its commit: the geometry memo, and the \<open>shaderMaterial\<close>
  with the memoized \<open>uniforms\<close> attached to \<open>shaderRef\<close> if none is attached yet. \<open>rng\<close> is the
  sequence \<open>Math.random()\<close> would produce during this render.
\<close>

definition Foliage_render :: "Constants \<Rightarrow> (nat \<Rightarrow> real) \<Rightarrow> Foliage \<Rightarrow> Foliage" where
  "Foliage_render c rng f =
     f\<lparr>fo_geometry := useMemo (\<lambda>_. Foliage_generate c rng) (fo_geometry f),
       fo_shaderRef :=
         useMemo (\<lambda>_. \<lparr>fo_uTime = 0, fo_uProgress = 0, fo_uPixelRatio = 1,
                        fo_uColorBase = EMERALD_LIGHT c, fo_uColorGold = GOLD_METALLIC c\<rparr>)
           (fo_shaderRef f)\<rparr>"

definition Spiral_initial :: Spiral where
  "Spiral_initial = \<lparr>sp_shaderRef = None, sp_currentProgress = 0, sp_geometry = None\<rparr>"

text \<open>\<open>new THREE.Color('#FFD700')\<close> has the components \<open>(1, 215/255, 0)\<close>.\<close>

definition Spiral_render :: "Constants \<Rightarrow> (nat \<Rightarrow> real) \<Rightarrow> Spiral \<Rightarrow> Spiral" where
  "Spiral_render c rng s =
     s\<lparr>sp_geometry := useMemo (\<lambda>_. Spiral_generate c rng) (sp_geometry s),
       sp_shaderRef :=
         useMemo (\<lambda>_. \<lparr>sp_uTime = 0, sp_uProgress = 0, sp_uPixelRatio = 1,
                        sp_uColor = (1, 215 / 255, 0)\<rparr>)
           (sp_shaderRef s)\<rparr>"

text \<open>
  What happens to a mounted component: it is rendered again (with whatever \<open>Math.random()\<close>
  would then produce), or its frame callback runs with the \<open>treeState\<close> of the last render.
\<close>

datatype Event = Rerender "nat \<Rightarrow> real" | Frame TreeMorphState RootState real

fun Foliage_event :: "Constants \<Rightarrow> Event \<Rightarrow> Foliage \<Rightarrow> Foliage" where
  "Foliage_event c (Rerender rng) f = Foliage_render c rng f"
| "Foliage_event c (Frame treeState state delta) f = Foliage_useFrame treeState state delta f"

fun Spiral_event :: "Constants \<Rightarrow> Event \<Rightarrow> Spiral \<Rightarrow> Spiral" where
  "Spiral_event c (Rerender rng) s = Spiral_render c rng s"
| "Spiral_event c (Frame treeState state delta) s = Spiral_useFrame treeState state delta s"

text \<open>
  A run of frames under one constant \<open>treeState\<close>, given by the \<open>delta\<close> of each frame: the
  progress value after the run, in double arithmetic.
\<close>

fun Foliage_progress_frames_f64 :: "TreeMorphState \<Rightarrow> real list \<Rightarrow> real \<Rightarrow> real" where
  "Foliage_progress_frames_f64 treeState [] cur = cur"
| "Foliage_progress_frames_f64 treeState (delta # deltas) cur =
     Foliage_progress_frames_f64 treeState deltas (Foliage_progress_f64 treeState delta cur)"

fun Spiral_progress_frames_f64 :: "TreeMorphState \<Rightarrow> real list \<Rightarrow> real \<Rightarrow> real" where
  "Spiral_progress_frames_f64 treeState [] cur = cur"
| "Spiral_progress_frames_f64 treeState (delta # deltas) cur =
     Spiral_progress_frames_f64 treeState deltas (Spiral_progress_f64 treeState delta cur)"

text \<open>A run of frames of Ornaments, the toggle free to change between frames.\<close>

fun Ornaments_frames :: "(TreeMorphState \<times> RootState \<times> real) list \<Rightarrow> Ornaments \<Rightarrow> Ornaments" where
  "Ornaments_frames [] ob = ob"
| "Ornaments_frames ((treeState, state, delta) # fs) ob =
     Ornaments_frames fs (Ornaments_useFrame treeState state delta ob)"

text \<open>
  The hook state of Ornaments before its first frame: \<open>useRef(0)\<close> for the progress, the two
  mesh refs still \<open>null\<close>, around the memoized data and the shared \<open>tempObject\<close>.
\<close>

definition Ornaments_initial :: "OrnamentData list \<Rightarrow> OrnamentData list \<Rightarrow> Object3D \<Rightarrow> Ornaments" where
  "Ornaments_initial boxData sphereData tempObject =
     \<lparr>or_progressRef = 0, or_boxMeshRef = None, or_sphereMeshRef = None,
      or_boxData = boxData, or_sphereData = sphereData, or_tempObject = tempObject\<rparr>"

subsection \<open>Overlay\<close>

text \<open>
  The elements a component returns: a tag, its \<open>className\<close>, its \<open>onClick\<close> handler if it has
  one, and its children; or a text node. A handler of type \<open>() => void\<close> acts on the state
  \<open>'s\<close> of whoever supplied it.
\<close>

datatype 's VNode =
    Element string string "('s \<Rightarrow> 's) option" "'s VNode list"
  | Text string

definition Overlay :: "TreeMorphState \<Rightarrow> ('s \<Rightarrow> 's) \<Rightarrow> 's VNode" where
  "Overlay treeState onToggle =
     (let isTree = (treeState = TREE_SHAPE) in
      Element ''div'' ''absolute inset-0 pointer-events-none flex flex-col justify-between p-8 md:p-12 z-10'' None
        [Element ''header'' ''flex flex-col items-start gap-2 animate-fade-in-down'' None
           [Element ''div'' ''border-l-4 border-yellow-500 pl-4'' None
              [Element ''h1'' ''text-4xl md:text-6xl font-serif text-white tracking-widest uppercase'' None
                 [Text ''Merry '',
                  Element ''span'' ''text-gold-gradient font-bold'' None [Text ''Christmas'']],
               Element ''h2'' ''text-xl md:text-2xl text-emerald-200/80 font-light tracking-[0.3em] mt-2'' None
                 [Text ''Feifei Baobao'']]],
         Element ''div'' ''flex justify-end items-end pointer-events-auto'' None
           [Element ''button''
              ''group relative px-10 py-4 bg-emerald-950/80 backdrop-blur-md border border-yellow-500/30 hover:border-yellow-400 transition-all duration-500 overflow-hidden''
              (Some onToggle)
              [Element ''div''
                 ''absolute inset-0 w-full h-full bg-gradient-to-r from-transparent via-yellow-400/10 to-transparent -translate-x-full group-hover:translate-x-full transition-transform duration-700 ease-in-out''
                 None [],
               Element ''span''
                 ''relative z-10 font-serif text-xl tracking-widest text-gold-gradient group-hover:text-yellow-200 transition-colors''
                 None
                 [Text (if isTree then ''RELEASE MEMORY'' else ''RESTORE ORDER'')],
               Element ''div'' ''absolute top-0 left-0 w-2 h-2 border-t border-l border-yellow-500'' None [],
               Element ''div'' ''absolute bottom-0 right-0 w-2 h-2 border-b border-r border-yellow-500'' None []]],
         Element ''div'' ''absolute bottom-6 left-12 text-xs text-white/20 tracking-widest font-mono'' None
           [Text ''EST. 2024 // REACT THREE FIBER // LUXURY EDITION'']])"

text \<open>The \<open>button\<close> elements of a tree, in document order.\<close>

fun buttons :: "'s VNode \<Rightarrow> 's VNode list" where
  "buttons (Text s) = []"
| "buttons (Element tag cls h cs) =
     (if tag = ''button'' then [Element tag cls h cs] else []) @ concat (map buttons cs)"

text \<open>Every \<open>onClick\<close> handler of a tree, in document order.\<close>

fun handlers :: "'s VNode \<Rightarrow> ('s \<Rightarrow> 's) list" where
  "handlers (Text s) = []"
| "handlers (Element tag cls h cs) =
     (case h of None \<Rightarrow> [] | Some f \<Rightarrow> [f]) @ concat (map handlers cs)"

text \<open>The text of a node: the concatenation of the text nodes below it.\<close>

fun textContent :: "'s VNode \<Rightarrow> string" where
  "textContent (Text s) = s"
| "textContent (Element tag cls h cs) = concat (map textContent cs)"

text \<open>A click on an element runs that element's \<open>onClick\<close> handler, if it has one, once.\<close>

fun click :: "'s VNode \<Rightarrow> 's \<Rightarrow> 's" where
  "click (Element tag cls (Some f) cs) s = f s"
| "click n s = s"

subsection \<open>Experience: the error boundary around Memories\<close>

text \<open>
  Rendering a subtree either yields its output or throws. What a render throws is a promise
  (the subtree suspends, as \<open>Image\<close> does while its texture loads) or an error.
\<close>

datatype Thrown = Suspended | Failed string

record ErrorBoundaryState =
  hasError :: bool

definition ImageErrorBoundary_constructor :: ErrorBoundaryState where
  "ImageErrorBoundary_constructor = \<lparr>hasError = False\<rparr>"

definition getDerivedStateFromError :: ErrorBoundaryState where
  "getDerivedStateFromError = \<lparr>hasError = True\<rparr>"

text \<open>\<open>render()\<close>: \<open>None\<close> is \<open>null\<close>, otherwise the children are handed on to be rendered.\<close>

definition ImageErrorBoundary_render :: "ErrorBoundaryState \<Rightarrow> 'c \<Rightarrow> 'c option" where
  "ImageErrorBoundary_render st children = (if hasError st then None else Some children)"

text \<open>
  How React renders a class component that defines \<open>getDerivedStateFromError\<close>: it calls
  \<open>render\<close> and renders what \<open>render\<close> returned; when that throws an error, the state becomes
  the result of \<open>getDerivedStateFromError\<close> and \<open>render\<close> is called once more, and an error
  thrown again goes on to the parent. A thrown promise is not an error and passes through.
  The result is the new state and the outcome: the output (\<open>None\<close> for \<open>null\<close>) or what is
  thrown to the parent.
\<close>

definition render_ImageErrorBoundary ::
  "ErrorBoundaryState \<Rightarrow> Thrown + 'n \<Rightarrow> ErrorBoundaryState \<times> (Thrown + 'n option)" where
  "render_ImageErrorBoundary st children =
     (case ImageErrorBoundary_render st children of
        None \<Rightarrow> (st, Inr None)
      | Some ch \<Rightarrow>
          (case ch of
             Inr out \<Rightarrow> (st, Inr (Some out))
           | Inl Suspended \<Rightarrow> (st, Inl Suspended)
           | Inl (Failed e) \<Rightarrow>
               (let st' = getDerivedStateFromError
                in (st', case ImageErrorBoundary_render st' children of
                           None \<Rightarrow> Inr None
                         | Some ch' \<Rightarrow> (case ch' of Inr out \<Rightarrow> Inr (Some out) | Inl t \<Rightarrow> Inl t)))))"

text \<open>\<open><Suspense fallback={null}>\<close>: a thrown promise is replaced by the fallback.\<close>

definition Suspense :: "'n option \<Rightarrow> Thrown + 'n option \<Rightarrow> Thrown + 'n option" where
  "Suspense fallback child = (case child of Inl Suspended \<Rightarrow> Inr fallback | _ \<Rightarrow> child)"

text \<open>Siblings are rendered in order; the first one that throws ends the render of the parent.\<close>

fun render_children :: "(Thrown + 'n) list \<Rightarrow> Thrown + 'n list" where
  "render_children [] = Inr []"
| "render_children (Inl t # cs) = Inl t"
| "render_children (Inr out # cs) =
     (case render_children cs of Inl t \<Rightarrow> Inl t | Inr outs \<Rightarrow> Inr (out # outs))"

text \<open>
  The children of \<open><Float>\<close> in Experience ("The Tree System"), given the outcome of
  rendering each component and the state of the boundary: Foliage, Ornaments, Spiral, the
  Suspense around the boundary around Memories, Star.
\<close>

definition Experience_tree_system ::
  "ErrorBoundaryState \<Rightarrow> Thrown + 'n \<Rightarrow> Thrown + 'n \<Rightarrow> Thrown + 'n \<Rightarrow> Thrown + 'n \<Rightarrow> Thrown + 'n \<Rightarrow>
     ErrorBoundaryState \<times> (Thrown + 'n option list)" where
  "Experience_tree_system st foliage ornaments spiral memories star =
     (let (st', boundary) = render_ImageErrorBoundary st memories
      in (st', render_children
                 [map_sum id Some foliage,
                  map_sum id Some ornaments,
                  map_sum id Some spiral,
                  Suspense None boundary,
                  map_sum id Some star]))"

subsection \<open>The transition as the specification words it\<close>

text \<open>
  Written from the specification, to be compared with the frame callbacks: the target of
  the toggle, and a linear step of a given length toward a target that stops at the target.
\<close>

definition spec_target :: "TreeMorphState \<Rightarrow> real" where
  "spec_target treeState = (if treeState = TREE_SHAPE then 1 else 0)"

definition spec_step_toward :: "real \<Rightarrow> real \<Rightarrow> real \<Rightarrow> real" where
  "spec_step_toward target len p =
     (if p < target then min (p + len) target
      else if target < p then max (p - len) target
      else p)"

text \<open>
  Written from the specification: the progress value after frames with the elapsed time
  steps \<open>deltas\<close>, started at \<open>p0\<close>, as a closed form.
\<close>

definition spec_closed_form :: "TreeMorphState \<Rightarrow> real \<Rightarrow> real list \<Rightarrow> real" where
  "spec_closed_form treeState p0 deltas =
     (if treeState = TREE_SHAPE then min (p0 + 2.0 * sum_list deltas) 1.0
      else max (p0 - 2.0 * sum_list deltas) 0.0)"

subsection \<open>Concrete inputs\<close>

text \<open>Small inputs on which the definitions above are run in the examples below.\<close>

definition example_constants :: Constants where
  "example_constants =
     \<lparr>FOLIAGE_COUNT = 2, SPIRAL_PARTICLE_COUNT = 2, TREE_HEIGHT = 12, TREE_RADIUS_BOTTOM = 5,
      SCATTER_RADIUS = 15, EMERALD_LIGHT = (0, 1, 0), GOLD_METALLIC = (1, 1, 0)\<rparr>"

definition example_rng :: "nat \<Rightarrow> real" where
  "example_rng n = 1 / 2"

definition example_state :: RootState where
  "example_state = \<lparr>clock_elapsedTime = 0, viewport_dpr = 1\<rparr>"

definition example_Foliage :: Foliage where
  "example_Foliage =
     \<lparr>fo_shaderRef = Some \<lparr>fo_uTime = 0, fo_uProgress = 0, fo_uPixelRatio = 1,
                            fo_uColorBase = (0, 1, 0), fo_uColorGold = (1, 1, 0)\<rparr>,
      fo_targetProgress = 0, fo_currentProgress = 0, fo_geometry = None\<rparr>"

definition example_Spiral :: Spiral where
  "example_Spiral =
     \<lparr>sp_shaderRef = Some \<lparr>sp_uTime = 0, sp_uProgress = 0, sp_uPixelRatio = 1,
                            sp_uColor = (1, 215 / 255, 0)\<rparr>,
      sp_currentProgress = 0, sp_geometry = None\<rparr>"

definition zero3 :: Vec3 where
  "zero3 = \<lparr>vx = 0, vy = 0, vz = 0\<rparr>"

definition example_tempObject :: Object3D where
  "example_tempObject =
     \<lparr>o_position = zero3, o_rotation = zero3, o_scale = \<lparr>vx = 1, vy = 1, vz = 1\<rparr>,
      o_matrix = \<lparr>m_position = zero3, m_rotation = zero3, m_scale = \<lparr>vx = 1, vy = 1, vz = 1\<rparr>\<rparr>\<rparr>"

text \<open>An ornament scattered at the origin whose place on the tree is \<open>(16, 8, 0)\<close>.\<close>

definition example_ornament :: OrnamentData where
  "example_ornament =
     \<lparr>od_id = 0, od_scale = 1 / 2, od_color = ''#ffd700'',
      od_scatterPos = zero3, od_scatterRot = zero3,
      od_treePos = \<lparr>vx = 16, vy = 8, vz = 0\<rparr>, od_treeRot = zero3\<rparr>"

text \<open>Ornaments with one box and one sphere, both meshes attached, before its first frame.\<close>

definition example_Ornaments :: Ornaments where
  "example_Ornaments =
     \<lparr>or_progressRef = 0,
      or_boxMeshRef = Some [o_matrix example_tempObject],
      or_sphereMeshRef = Some [o_matrix example_tempObject],
      or_boxData = [example_ornament], or_sphereData = [example_ornament],
      or_tempObject = example_tempObject\<rparr>"

definition example_events :: "Event list" where
  "example_events =
     [Rerender example_rng, Frame TREE_SHAPE example_state (1 / 10),
      Frame SCATTERED example_state 3, Rerender example_rng, Frame TREE_SHAPE example_state 7]"

text \<open>The double nearest to 0.1, a frame of a tenth of a second.\<close>

definition tenth_f64 :: real where
  "tenth_f64 = 3602879701896397 / 2 ^ 55"


section \<open>IEEE rounding\<close>

lemma round_even_cases:
  "round_even x = \<lfloor>x\<rfloor> \<and> x - of_int \<lfloor>x\<rfloor> \<le> 1 / 2
   \<or> round_even x = \<lfloor>x\<rfloor> + 1 \<and> 1 / 2 \<le> x - of_int \<lfloor>x\<rfloor>"
  unfolding round_even_def Let_def by auto

lemma round_even_error: "\<bar>of_int (round_even x) - x\<bar> \<le> 1 / 2"
proof -
  have "of_int \<lfloor>x\<rfloor> \<le> x" "x < of_int \<lfloor>x\<rfloor> + 1" by linarith+
  then show ?thesis using round_even_cases[of x] by auto
qed

lemma round_even_of_int [simp]: "round_even (of_int n) = n"
  by (simp add: round_even_def)

lemma round_even_ge: "of_int n \<le> x \<Longrightarrow> n \<le> round_even x"
proof -
  assume "of_int n \<le> x"
  then have "n \<le> \<lfloor>x\<rfloor>" by (simp add: le_floor_iff)
  then show ?thesis using round_even_cases[of x] by auto
qed

lemma round_even_le: "x \<le> of_int n \<Longrightarrow> round_even x \<le> n"
proof -
  assume le: "x \<le> of_int n"
  then have f: "\<lfloor>x\<rfloor> \<le> n" by (simp add: floor_le_iff) 
  show ?thesis
  proof (cases "round_even x = \<lfloor>x\<rfloor>")
    case True
    then show ?thesis using f by simp
  next
    case False
    then have r: "round_even x = \<lfloor>x\<rfloor> + 1" "1 / 2 \<le> x - of_int \<lfloor>x\<rfloor>"
      using round_even_cases[of x] by auto
    then have "real_of_int \<lfloor>x\<rfloor> < of_int n" using le by linarith
    then have "\<lfloor>x\<rfloor> < n" by simp
    then show ?thesis using r(1) by simp
  qed
qed


lemma floor_log2_bounds:
  assumes "x \<noteq> 0"
  shows "2 powr of_int \<lfloor>log 2 \<bar>x\<bar>\<rfloor> \<le> \<bar>x\<bar>" and "\<bar>x\<bar> < 2 powr (of_int \<lfloor>log 2 \<bar>x\<bar>\<rfloor> + 1)"
proof -
  have pos: "0 < \<bar>x\<bar>" using assms by simp
  have c: "2 powr log 2 \<bar>x\<bar> = \<bar>x\<bar>" using pos by simp
  have "(2::real) powr of_int \<lfloor>log 2 \<bar>x\<bar>\<rfloor> \<le> 2 powr log 2 \<bar>x\<bar>"
    by (intro powr_mono) simp_all
  then show "2 powr of_int \<lfloor>log 2 \<bar>x\<bar>\<rfloor> \<le> \<bar>x\<bar>"
    using c by simp
  have "log 2 \<bar>x\<bar> < of_int \<lfloor>log 2 \<bar>x\<bar>\<rfloor> + 1" by linarith
  then have "(2::real) powr log 2 \<bar>x\<bar> < 2 powr (of_int \<lfloor>log 2 \<bar>x\<bar>\<rfloor> + 1)"
    by (intro powr_less_mono) simp_all
  then show "\<bar>x\<bar> < 2 powr (of_int \<lfloor>log 2 \<bar>x\<bar>\<rfloor> + 1)"
    using c by simp
qed

lemma floor_log2_eq:
  assumes "2 powr of_int k \<le> \<bar>x\<bar>" "\<bar>x\<bar> < 2 powr (of_int k + 1)"
  shows "\<lfloor>log 2 \<bar>x\<bar>\<rfloor> = k"
proof -
  have pos: "0 < \<bar>x\<bar>" using assms(1) powr_gt_zero[of 2 "of_int k"] by linarith
  have "of_int k \<le> log 2 \<bar>x\<bar>" using assms(1) pos by (simp add: le_log_iff)
  moreover have "log 2 \<bar>x\<bar> < of_int k + 1" using assms(2) pos by (simp add: log_less_iff)
  ultimately show ?thesis by (intro floor_unique) simp_all
qed

text \<open>The rounding error is at most half a unit in the last place.\<close>

lemma round_binary_error:
  "\<bar>round_binary p emin x - x\<bar> \<le> 2 powr (of_int (max \<lfloor>log 2 \<bar>x\<bar>\<rfloor> emin) - real p)"
proof (cases "x = 0")
  case True
  then show ?thesis by (simp add: round_binary_def)
next
  case False
  define u :: real where "u = 2 powr (of_int (max \<lfloor>log 2 \<bar>x\<bar>\<rfloor> emin) - (real p - 1))"
  have u: "0 < u" by (simp add: u_def)
  have r: "round_binary p emin x = of_int (round_even (x / u)) * u"
    using False by (simp add: round_binary_def u_def Let_def)
  have "of_int (round_even (x / u)) * u - x = (of_int (round_even (x / u)) - x / u) * u"
    using u by (simp add: field_simps)
  then have "\<bar>of_int (round_even (x / u)) * u - x\<bar> = \<bar>of_int (round_even (x / u)) - x / u\<bar> * u"
    using u by (simp add: abs_mult)
  also have "\<dots> \<le> 1 / 2 * u"
    using round_even_error[of "x / u"] u by (intro mult_right_mono) simp_all
  also have "\<dots> = 2 powr (of_int (max \<lfloor>log 2 \<bar>x\<bar>\<rfloor> emin) - real p)"
    by (simp add: u_def powr_diff)
  finally show ?thesis using r by simp
qed

lemma round_binary_error_below:
  assumes "\<bar>x\<bar> < 2 powr of_int m" "emin < m"
  shows "\<bar>round_binary p emin x - x\<bar> \<le> 2 powr (of_int m - real p - 1)"
proof (cases "x = 0")
  case True
  then show ?thesis by (simp add: round_binary_def)
next
  case False
  have "(2::real) powr of_int \<lfloor>log 2 \<bar>x\<bar>\<rfloor> < 2 powr of_int m"
    using floor_log2_bounds(1)[OF False] assms(1) by linarith
  then have "\<lfloor>log 2 \<bar>x\<bar>\<rfloor> < m" by simp
  then have "max \<lfloor>log 2 \<bar>x\<bar>\<rfloor> emin \<le> m - 1" using assms(2) by simp
  then have "real_of_int (max \<lfloor>log 2 \<bar>x\<bar>\<rfloor> emin) - real p \<le> of_int m - real p - 1"
    by linarith
  then have "2 powr (of_int (max \<lfloor>log 2 \<bar>x\<bar>\<rfloor> emin) - real p) \<le> 2 powr (of_int m - real p - 1)"
    by simp
  then show ?thesis using round_binary_error[of p emin x] by linarith
qed


lemma round_binary_nonneg: "0 \<le> x \<Longrightarrow> 0 \<le> round_binary p emin x"
proof -
  assume x: "0 \<le> x"
  have "0 \<le> round_even (x / u)" if "0 < u" for u :: real
    using round_even_ge[of 0 "x / u"] x that by simp
  then show ?thesis by (simp add: round_binary_def Let_def)
qed

lemma round_binary_nonpos: "x \<le> 0 \<Longrightarrow> round_binary p emin x \<le> 0"
proof -
  assume x: "x \<le> 0"
  have "round_even (x / u) \<le> 0" if "0 < u" for u :: real
    using round_even_le[of "x / u" 0] x that by (simp add: divide_nonpos_pos)
  then show ?thesis by (simp add: round_binary_def Let_def mult_le_0_iff)
qed

lemma two_powr_int_nonneg: "0 \<le> n \<Longrightarrow> (2::real) powr of_int n = of_int (2 ^ nat n)"
  by (simp add: powr_realpow[symmetric])

text \<open>Rounding does not cross a power of two.\<close>

lemma round_binary_ge_power:
  assumes "2 powr of_int k \<le> x" "emin \<le> k" "0 < p"
  shows "2 powr of_int k \<le> round_binary p emin x"
proof -
  have pos: "0 < x" using assms(1) powr_gt_zero[of 2 "of_int k"] by linarith
  let ?l = "\<lfloor>log 2 \<bar>x\<bar>\<rfloor>"
  have "of_int k \<le> log 2 \<bar>x\<bar>" using assms(1) pos by (simp add: le_log_iff)
  then have kl: "k \<le> ?l" by (simp add: le_floor_iff)
  then have m: "max ?l emin = ?l" using assms(2) by simp
  define u :: real where "u = 2 powr (of_int ?l - (real p - 1))"
  have u: "0 < u" by (simp add: u_def)
  have r: "round_binary p emin x = of_int (round_even (x / u)) * u"
    using pos m by (simp add: round_binary_def u_def Let_def)
  have "2 powr of_int ?l \<le> x" using floor_log2_bounds(1)[of x] pos by simp
  then have "2 powr of_int ?l / u \<le> x / u" using u by (simp add: divide_right_mono)
  moreover have "2 powr of_int ?l / u = 2 powr (real p - 1)"
    by (simp add: u_def powr_diff)
  moreover have "(2::real) powr (real p - 1) = of_int (2 ^ (p - 1))"
    using assms(3) by (simp add: powr_realpow[symmetric] of_nat_diff)
  ultimately have "of_int (2 ^ (p - 1)) \<le> x / u" by simp
  then have "2 ^ (p - 1) \<le> round_even (x / u)" by (rule round_even_ge)
  then have "real_of_int (2 ^ (p - 1)) \<le> of_int (round_even (x / u))" by linarith
  then have "of_int (2 ^ (p - 1)) * u \<le> of_int (round_even (x / u)) * u"
    using u by (simp add: mult_right_mono)
  moreover have "of_int (2 ^ (p - 1)) * u = 2 powr of_int ?l"
    using \<open>(2::real) powr (real p - 1) = of_int (2 ^ (p - 1))\<close>
    by (simp add: u_def powr_diff)
  moreover have "2 powr of_int k \<le> (2::real) powr of_int ?l" using kl by simp
  ultimately show ?thesis using r by linarith
qed

lemma round_binary_le_power:
  assumes "x \<le> 2 powr of_int k" "emin \<le> k" "0 < p"
  shows "round_binary p emin x \<le> 2 powr of_int k"
proof (cases "0 < x")
  case False
  then have "round_binary p emin x \<le> 0" by (intro round_binary_nonpos) simp
  then show ?thesis using powr_ge_zero[of 2 "of_int k"] by linarith
next
  case True
  let ?l = "\<lfloor>log 2 \<bar>x\<bar>\<rfloor>"
  let ?e = "max ?l emin"
  have "(2::real) powr of_int ?l \<le> \<bar>x\<bar>"
    using floor_log2_bounds(1)[of x] True by simp
  then have "(2::real) powr of_int ?l \<le> 2 powr of_int k"
    using True assms(1) by linarith
  then have "?l \<le> k" by simp
  then have ek: "?e \<le> k" using assms(2) by simp
  define u :: real where "u = 2 powr (of_int ?e - (real p - 1))"
  have u: "0 < u" by (simp add: u_def)
  have r: "round_binary p emin x = of_int (round_even (x / u)) * u"
    using True by (simp add: round_binary_def u_def Let_def)
  define n :: int where "n = k - ?e + int p - 1"
  have n: "0 \<le> n" using ek assms(3) unfolding n_def by linarith
  have q: "2 powr of_int k / u = 2 powr of_int n"
    using assms(3) by (simp add: u_def n_def powr_diff[symmetric] algebra_simps)
  have "x / u \<le> 2 powr of_int k / u" using assms(1) u by (simp add: divide_right_mono)
  then have "x / u \<le> of_int (2 ^ nat n)" using q two_powr_int_nonneg[OF n] by simp
  then have "round_even (x / u) \<le> 2 ^ nat n" by (rule round_even_le)
  then have "real_of_int (round_even (x / u)) \<le> of_int (2 ^ nat n)" by linarith
  then have "of_int (round_even (x / u)) * u \<le> of_int (2 ^ nat n) * u"
    using u by (simp add: mult_right_mono)
  moreover have "of_int (2 ^ nat n) * u = 2 powr of_int k"
    using q two_powr_int_nonneg[OF n] u by (simp add: field_simps)
  ultimately show ?thesis using r by linarith
qed

text \<open>Evaluating a rounding whose binade is known.\<close>

lemma round_binary_eval:
  assumes "2 powr of_int k \<le> \<bar>x\<bar>" "\<bar>x\<bar> < 2 powr (of_int k + 1)" "emin \<le> k"
  shows "round_binary p emin x =
           of_int (round_even (x / 2 powr (of_int k - (real p - 1)))) * 2 powr (of_int k - (real p - 1))"
proof -
  have "x \<noteq> 0" using assms(1) powr_gt_zero[of 2 "of_int k"] by auto
  moreover have "max \<lfloor>log 2 \<bar>x\<bar>\<rfloor> emin = k"
    using floor_log2_eq[OF assms(1,2)] assms(3) by simp
  ultimately show ?thesis by (simp add: round_binary_def Let_def)
qed

section \<open>The progress value\<close>

subsection \<open>One frame\<close>

lemma Foliage_useFrame_unmounted:
  "fo_shaderRef f = None \<Longrightarrow> Foliage_useFrame ts st delta f = f"
  by (simp add: Foliage_useFrame_def)

lemma Spiral_useFrame_unmounted:
  "sp_shaderRef s = None \<Longrightarrow> Spiral_useFrame ts st delta s = s"
  by (simp add: Spiral_useFrame_def)

lemma Foliage_useFrame_mounted:
  "fo_shaderRef f \<noteq> None \<Longrightarrow> fo_shaderRef (Foliage_useFrame ts st delta f) \<noteq> None"
  by (auto simp: Foliage_useFrame_def Let_def)

lemma Spiral_useFrame_mounted:
  "sp_shaderRef s \<noteq> None \<Longrightarrow> sp_shaderRef (Spiral_useFrame ts st delta s) \<noteq> None"
  by (auto simp: Spiral_useFrame_def Let_def)

lemma Foliage_useFrame_uProgress:
  "fo_shaderRef f \<noteq> None \<Longrightarrow>
   map_option fo_uProgress (fo_shaderRef (Foliage_useFrame ts st delta f)) =
     Some (fo_currentProgress (Foliage_useFrame ts st delta f))"
  by (auto simp: Foliage_useFrame_def Let_def)

lemma Spiral_useFrame_uProgress:
  "sp_shaderRef s \<noteq> None \<Longrightarrow>
   map_option sp_uProgress (sp_shaderRef (Spiral_useFrame ts st delta s)) =
     Some (sp_currentProgress (Spiral_useFrame ts st delta s))"
  by (auto simp: Spiral_useFrame_def Let_def)

lemma Ornaments_useFrame_progress:
  "or_progressRef (Ornaments_useFrame ts st delta ob) = Ornaments_progress ts delta (or_progressRef ob)"
  by (simp add: Ornaments_useFrame_def Let_def split: prod.splits option.splits)

text \<open>The step of the specification stays between the old value and the target.\<close>

lemma spec_step_toward_between:
  "0 \<le> len \<Longrightarrow>
   min p target \<le> spec_step_toward target len p \<and> spec_step_toward target len p \<le> max p target"
  by (auto simp: spec_step_toward_def)

lemma Foliage_useFrame_step:
  assumes "fo_shaderRef f \<noteq> None" "0 \<le> fo_currentProgress f" "fo_currentProgress f \<le> 1"
  shows "fo_currentProgress (Foliage_useFrame ts st delta f) =
           spec_step_toward (spec_target ts) (2.0 * delta) (fo_currentProgress f)"
  using assms
  by (cases ts) (auto simp: Foliage_useFrame_def spec_step_toward_def spec_target_def Let_def)

lemma Spiral_useFrame_step:
  assumes "sp_shaderRef s \<noteq> None" "0 \<le> sp_currentProgress s" "sp_currentProgress s \<le> 1"
  shows "sp_currentProgress (Spiral_useFrame ts st delta s) =
           spec_step_toward (spec_target ts) (2.0 * delta) (sp_currentProgress s)"
  using assms
  by (cases ts) (auto simp: Spiral_useFrame_def spec_step_toward_def spec_target_def Let_def)

lemma Ornaments_progress_step:
  assumes "0 \<le> p" "p \<le> 1"
  shows "Ornaments_progress ts delta p = spec_step_toward (spec_target ts) (1.5 * delta) p"
  using assms
  by (cases ts) (auto simp: Ornaments_progress_def spec_step_toward_def spec_target_def Let_def)

text \<open>
  C1. On a frame of Foliage or Spiral (its shader material attached) and on a frame of
  Ornaments, with the progress value in \<open>[0, 1]\<close>, the new progress value is the old one
  stepped toward the target of the toggle (1 for \<open>TREE_SHAPE\<close>, 0 otherwise) by
  \<open>speed * delta\<close>, with speed 2.0 for Foliage and Spiral and 1.5 for Ornaments, stopping
  at the target; for a nonnegative \<open>delta\<close> it lies between the old value and the target.
\<close>

theorem C1_progress_stepped_toward_target:
  assumes "fo_shaderRef f \<noteq> None" and "sp_shaderRef s \<noteq> None"
    and "0 \<le> fo_currentProgress f" and "fo_currentProgress f \<le> 1"
    and "0 \<le> sp_currentProgress s" and "sp_currentProgress s \<le> 1"
    and "0 \<le> or_progressRef ob" and "or_progressRef ob \<le> 1"
  shows "spec_target ts = (if ts = TREE_SHAPE then 1 else 0)
       \<and> fo_currentProgress (Foliage_useFrame ts st delta f) =
           spec_step_toward (spec_target ts) (2.0 * delta) (fo_currentProgress f)
       \<and> sp_currentProgress (Spiral_useFrame ts st delta s) =
           spec_step_toward (spec_target ts) (2.0 * delta) (sp_currentProgress s)
       \<and> or_progressRef (Ornaments_useFrame ts st delta ob) =
           spec_step_toward (spec_target ts) (1.5 * delta) (or_progressRef ob)
       \<and> (0 \<le> delta \<longrightarrow>
            min (fo_currentProgress f) (spec_target ts) \<le> fo_currentProgress (Foliage_useFrame ts st delta f)
          \<and> fo_currentProgress (Foliage_useFrame ts st delta f) \<le> max (fo_currentProgress f) (spec_target ts)
          \<and> min (sp_currentProgress s) (spec_target ts) \<le> sp_currentProgress (Spiral_useFrame ts st delta s)
          \<and> sp_currentProgress (Spiral_useFrame ts st delta s) \<le> max (sp_currentProgress s) (spec_target ts)
          \<and> min (or_progressRef ob) (spec_target ts) \<le> or_progressRef (Ornaments_useFrame ts st delta ob)
          \<and> or_progressRef (Ornaments_useFrame ts st delta ob) \<le> max (or_progressRef ob) (spec_target ts))"
proof -
  have F: "fo_currentProgress (Foliage_useFrame ts st delta f) =
             spec_step_toward (spec_target ts) (2.0 * delta) (fo_currentProgress f)"
    using assms(1,3,4) by (rule Foliage_useFrame_step)
  have S: "sp_currentProgress (Spiral_useFrame ts st delta s) =
             spec_step_toward (spec_target ts) (2.0 * delta) (sp_currentProgress s)"
    using assms(2,5,6) by (rule Spiral_useFrame_step)
  have O: "or_progressRef (Ornaments_useFrame ts st delta ob) =
             spec_step_toward (spec_target ts) (1.5 * delta) (or_progressRef ob)"
    using assms(7,8) by (simp add: Ornaments_useFrame_progress Ornaments_progress_step)
  have B: "min p (spec_target ts) \<le> spec_step_toward (spec_target ts) (k * delta) p
         \<and> spec_step_toward (spec_target ts) (k * delta) p \<le> max p (spec_target ts)"
    if "0 \<le> delta" "0 \<le> k" for p k :: real
    using that by (intro spec_step_toward_between) simp
  show ?thesis
    unfolding F S O using B[where k = "2.0"] B[where k = "1.5"] by (simp add: spec_target_def)
qed

theorem C1_progress_stepped_toward_target_witness:
  "fo_shaderRef example_Foliage \<noteq> None \<and> sp_shaderRef example_Spiral \<noteq> None
   \<and> fo_currentProgress example_Foliage = 0 \<and> sp_currentProgress example_Spiral = 0
   \<and> or_progressRef example_Ornaments = 0
   \<and> fo_currentProgress (Foliage_useFrame TREE_SHAPE example_state (1 / 10) example_Foliage) =
       spec_step_toward 1 (1 / 5) 0
   \<and> sp_currentProgress (Spiral_useFrame TREE_SHAPE example_state (1 / 10) example_Spiral) =
       spec_step_toward 1 (1 / 5) 0
   \<and> or_progressRef (Ornaments_useFrame TREE_SHAPE example_state (1 / 10) example_Ornaments) =
       spec_step_toward 1 (3 / 20) 0
   \<and> fo_currentProgress (Foliage_useFrame TREE_SHAPE example_state (1 / 10) example_Foliage) \<le> 1"
  using C1_progress_stepped_toward_target
          [of example_Foliage example_Spiral example_Ornaments TREE_SHAPE example_state "1 / 10"]
  by (simp add: example_Foliage_def example_Spiral_def example_Ornaments_def spec_target_def)

subsection \<open>The interval invariant\<close>

lemma Foliage_useFrame_range:
  assumes "0 \<le> fo_currentProgress f" "fo_currentProgress f \<le> 1" "0 \<le> delta"
  shows "0 \<le> fo_currentProgress (Foliage_useFrame ts st delta f)
       \<and> fo_currentProgress (Foliage_useFrame ts st delta f) \<le> 1"
  using assms by (auto simp: Foliage_useFrame_def Let_def split: option.splits)

lemma Spiral_useFrame_range:
  assumes "0 \<le> sp_currentProgress s" "sp_currentProgress s \<le> 1" "0 \<le> delta"
  shows "0 \<le> sp_currentProgress (Spiral_useFrame ts st delta s)
       \<and> sp_currentProgress (Spiral_useFrame ts st delta s) \<le> 1"
  using assms by (auto simp: Spiral_useFrame_def Let_def split: option.splits)

lemma Ornaments_progress_range:
  assumes "0 \<le> p" "p \<le> 1" "0 \<le> delta"
  shows "0 \<le> Ornaments_progress ts delta p \<and> Ornaments_progress ts delta p \<le> 1"
  using assms by (auto simp: Ornaments_progress_def Let_def)

lemma Foliage_render_progress [simp]:
  "fo_currentProgress (Foliage_render c rng f) = fo_currentProgress f"
  by (simp add: Foliage_render_def)

lemma Spiral_render_progress [simp]:
  "sp_currentProgress (Spiral_render c rng s) = sp_currentProgress s"
  by (simp add: Spiral_render_def)

lemma Foliage_events_range:
  assumes "\<forall>ts st d. Frame ts st d \<in> set evs \<longrightarrow> 0 \<le> d"
    and "0 \<le> fo_currentProgress f" "fo_currentProgress f \<le> 1"
  shows "0 \<le> fo_currentProgress (fold (Foliage_event c) evs f)
       \<and> fo_currentProgress (fold (Foliage_event c) evs f) \<le> 1"
  using assms
proof (induction evs arbitrary: f)
  case Nil
  then show ?case by simp
next
  case (Cons ev evs)
  have "0 \<le> fo_currentProgress (Foliage_event c ev f) \<and> fo_currentProgress (Foliage_event c ev f) \<le> 1"
  proof (cases ev)
    case (Rerender rng)
    then show ?thesis using Cons.prems(2,3) by simp
  next
    case (Frame ts st d)
    then have "0 \<le> d" using Cons.prems(1) by auto
    then show ?thesis using Frame Cons.prems(2,3) by (simp add: Foliage_useFrame_range)
  qed
  moreover have "\<forall>ts st d. Frame ts st d \<in> set evs \<longrightarrow> 0 \<le> d"
    using Cons.prems(1) by auto
  ultimately show ?case using Cons.IH by simp
qed

lemma Spiral_events_range:
  assumes "\<forall>ts st d. Frame ts st d \<in> set evs \<longrightarrow> 0 \<le> d"
    and "0 \<le> sp_currentProgress s" "sp_currentProgress s \<le> 1"
  shows "0 \<le> sp_currentProgress (fold (Spiral_event c) evs s)
       \<and> sp_currentProgress (fold (Spiral_event c) evs s) \<le> 1"
  using assms
proof (induction evs arbitrary: s)
  case Nil
  then show ?case by simp
next
  case (Cons ev evs)
  have "0 \<le> sp_currentProgress (Spiral_event c ev s) \<and> sp_currentProgress (Spiral_event c ev s) \<le> 1"
  proof (cases ev)
    case (Rerender rng)
    then show ?thesis using Cons.prems(2,3) by simp
  next
    case (Frame ts st d)
    then have "0 \<le> d" using Cons.prems(1) by auto
    then show ?thesis using Frame Cons.prems(2,3) by (simp add: Spiral_useFrame_range)
  qed
  moreover have "\<forall>ts st d. Frame ts st d \<in> set evs \<longrightarrow> 0 \<le> d"
    using Cons.prems(1) by auto
  ultimately show ?case using Cons.IH by simp
qed

lemma Ornaments_frames_range:
  assumes "\<forall>fr \<in> set fs. 0 \<le> snd (snd fr)"
    and "0 \<le> or_progressRef ob" "or_progressRef ob \<le> 1"
  shows "0 \<le> or_progressRef (Ornaments_frames fs ob) \<and> or_progressRef (Ornaments_frames fs ob) \<le> 1"
  using assms
proof (induction fs ob rule: Ornaments_frames.induct)
  case (1 ob)
  then show ?case by simp
next
  case (2 ts st d fs ob)
  have "0 \<le> d" using "2.prems"(1) by simp
  then have "0 \<le> or_progressRef (Ornaments_useFrame ts st d ob)
           \<and> or_progressRef (Ornaments_useFrame ts st d ob) \<le> 1"
    using "2.prems"(2,3) by (simp add: Ornaments_useFrame_progress Ornaments_progress_range)
  then show ?case using "2.IH" "2.prems"(1) by simp
qed

text \<open>
  C8. The progress value of Foliage, Spiral and Ornaments starts at 0 and stays in
  \<open>[0, 1]\<close>: from any value in \<open>[0, 1]\<close>, whatever the component goes through afterwards
  (frames with any toggle state and any nonnegative \<open>delta\<close>, with or without an attached
  material, and renders in between), the value is in \<open>[0, 1]\<close> again.
\<close>

theorem C8_progress_in_unit_interval:
  assumes "\<forall>ts st d. Frame ts st d \<in> set evs \<longrightarrow> 0 \<le> d"
    and "\<forall>fr \<in> set fs. 0 \<le> snd (snd fr)"
    and "0 \<le> fo_currentProgress f" and "fo_currentProgress f \<le> 1"
    and "0 \<le> sp_currentProgress s" and "sp_currentProgress s \<le> 1"
    and "0 \<le> or_progressRef ob" and "or_progressRef ob \<le> 1"
  shows "fo_currentProgress Foliage_initial = 0
       \<and> sp_currentProgress Spiral_initial = 0
       \<and> or_progressRef (Ornaments_initial boxData sphereData tmp) = 0
       \<and> 0 \<le> fo_currentProgress (fold (Foliage_event c) evs f)
       \<and> fo_currentProgress (fold (Foliage_event c) evs f) \<le> 1
       \<and> 0 \<le> sp_currentProgress (fold (Spiral_event c) evs s)
       \<and> sp_currentProgress (fold (Spiral_event c) evs s) \<le> 1
       \<and> 0 \<le> or_progressRef (Ornaments_frames fs ob)
       \<and> or_progressRef (Ornaments_frames fs ob) \<le> 1"
  using Foliage_events_range[OF assms(1,3,4)] Spiral_events_range[OF assms(1,5,6)]
    Ornaments_frames_range[OF assms(2,7,8)]
  by (simp add: Foliage_initial_def Spiral_initial_def Ornaments_initial_def)

theorem C8_progress_in_unit_interval_witness:
  "0 \<le> fo_currentProgress (fold (Foliage_event example_constants) example_events Foliage_initial)
   \<and> fo_currentProgress (fold (Foliage_event example_constants) example_events Foliage_initial) \<le> 1
   \<and> 0 \<le> sp_currentProgress (fold (Spiral_event example_constants) example_events Spiral_initial)
   \<and> sp_currentProgress (fold (Spiral_event example_constants) example_events Spiral_initial) \<le> 1
   \<and> 0 \<le> or_progressRef
            (Ornaments_frames [(TREE_SHAPE, example_state, 1 / 10), (SCATTERED, example_state, 3)]
               example_Ornaments)
   \<and> or_progressRef
       (Ornaments_frames [(TREE_SHAPE, example_state, 1 / 10), (SCATTERED, example_state, 3)]
          example_Ornaments) \<le> 1"
  using C8_progress_in_unit_interval
          [of example_events "[(TREE_SHAPE, example_state, 1 / 10), (SCATTERED, example_state, 3)]"
              Foliage_initial Spiral_initial example_Ornaments]
  by (simp add: example_events_def Foliage_initial_def Spiral_initial_def example_Ornaments_def)

subsection \<open>A run of frames under a constant toggle, in double arithmetic\<close>

lemma f64_nonneg: "0 \<le> x \<Longrightarrow> 0 \<le> f64 x"
  by (simp add: f64_def round_binary_nonneg)

lemma f64_nonpos: "x \<le> 0 \<Longrightarrow> f64 x \<le> 0"
  by (simp add: f64_def round_binary_nonpos)

lemma f64_ge_1: "1 \<le> x \<Longrightarrow> 1 \<le> f64 x"
  using round_binary_ge_power[of 0 x "- 1022" 53] by (simp add: f64_def)

lemma f64_ge_2: "2 \<le> x \<Longrightarrow> 2 \<le> f64 x"
  using round_binary_ge_power[of 1 x "- 1022" 53] by (simp add: f64_def)

lemma f64_le_1: "x \<le> 1 \<Longrightarrow> f64 x \<le> 1"
  using round_binary_le_power[of x 0 "- 1022" 53] by (simp add: f64_def)

lemma f64_error_below_1: "\<bar>x\<bar> < 1 \<Longrightarrow> \<bar>f64 x - x\<bar> \<le> 1 / 2 ^ 54"
  using round_binary_error_below[of x 0 "- 1022" 53] by (simp add: f64_def powr_neg_numeral)

lemma f64_error_below_2: "\<bar>x\<bar> < 2 \<Longrightarrow> \<bar>f64 x - x\<bar> \<le> 1 / 2 ^ 53"
  using round_binary_error_below[of x 1 "- 1022" 53] by (simp add: f64_def powr_neg_numeral)

lemma Foliage_progress_f64_tree_step:
  assumes "0 \<le> p" "p < 1" "0 \<le> d"
  shows "0 \<le> Foliage_progress_f64 TREE_SHAPE d p \<and> Foliage_progress_f64 TREE_SHAPE d p \<le> 1
       \<and> (Foliage_progress_f64 TREE_SHAPE d p = 1 \<and> 1 - 1 / 2 ^ 52 \<le> p + 2 * d
          \<or> Foliage_progress_f64 TREE_SHAPE d p < 1
            \<and> \<bar>Foliage_progress_f64 TREE_SHAPE d p - (p + 2 * d)\<bar> \<le> 1 / 2 ^ 52)"
proof -
  define e :: real where "e = 1 / 2 ^ 54"
  have e: "(1::real) / 2 ^ 54 = e" "(1::real) / 2 ^ 53 = 2 * e" "(1::real) / 2 ^ 52 = 4 * e" "0 < e"
    by (simp_all add: e_def)
  define s where "s = f64 (2 * d)"
  define r where "r = p + s"
  define q where "q = min (f64 r) 1"
  have q: "Foliage_progress_f64 TREE_SHAPE d p = q"
    using assms(2) by (simp add: Foliage_progress_f64_def Let_def q_def r_def s_def)
  have s0: "0 \<le> s" unfolding s_def using assms(3) by (intro f64_nonneg) simp
  have r0: "0 \<le> r" using s0 assms(1) by (simp add: r_def)
  have range: "0 \<le> q \<and> q \<le> 1" using f64_nonneg[OF r0] by (simp add: q_def)
  have main: "q = 1 \<and> 1 - 1 / 2 ^ 52 \<le> p + 2 * d \<or> q < 1 \<and> \<bar>q - (p + 2 * d)\<bar> \<le> 1 / 2 ^ 52"
  proof (cases "2 \<le> 2 * d")
    case True
    then have "2 \<le> s" unfolding s_def by (rule f64_ge_2)
    then have "1 \<le> r" using assms(1) by (simp add: r_def)
    then have "q = 1" using f64_ge_1[of r] by (simp add: q_def)
    then show ?thesis using True assms(1) by simp
  next
    case False
    then have "\<bar>2 * d\<bar> < 2" using assms(3) by simp
    then have es: "\<bar>s - 2 * d\<bar> \<le> 1 / 2 ^ 53" unfolding s_def by (rule f64_error_below_2)
    show ?thesis
    proof (cases "1 \<le> f64 r")
      case True
      then have q1: "q = 1" by (simp add: q_def)
      have "1 - 1 / 2 ^ 54 \<le> r"
      proof (rule ccontr)
        assume "\<not> 1 - 1 / 2 ^ 54 \<le> r"
        then have lt: "r < 1 - 1 / 2 ^ 54" by simp
        then have "\<bar>r\<bar> < 1" using r0 by simp
        then have "\<bar>f64 r - r\<bar> \<le> 1 / 2 ^ 54" by (rule f64_error_below_1)
        then show False using True lt e(4) unfolding e(1-3) by linarith
      qed
      then have "1 - 1 / 2 ^ 52 \<le> p + 2 * d" using es unfolding r_def e by linarith
      then show ?thesis using q1 by simp
    next
      case False
      then have q2: "q = f64 r" "q < 1" by (simp_all add: q_def)
      have "r < 1" using False f64_ge_1[of r] by linarith
      then have "\<bar>r\<bar> < 1" using r0 by simp
      then have "\<bar>f64 r - r\<bar> \<le> 1 / 2 ^ 54" by (rule f64_error_below_1)
      then have "\<bar>q - (p + 2 * d)\<bar> \<le> 1 / 2 ^ 52"
        using es e(4) unfolding q2(1) r_def e(1-3) by linarith
      then show ?thesis using q2(2) by simp
    qed
  qed
  show ?thesis unfolding q using range main by simp
qed

lemma Foliage_progress_f64_scattered_step:
  assumes "0 < p" "p \<le> 1" "0 \<le> d"
  shows "0 \<le> Foliage_progress_f64 SCATTERED d p \<and> Foliage_progress_f64 SCATTERED d p \<le> 1
       \<and> (Foliage_progress_f64 SCATTERED d p = 0 \<and> p - 2 * d \<le> 1 / 2 ^ 52
          \<or> 0 < Foliage_progress_f64 SCATTERED d p
            \<and> \<bar>Foliage_progress_f64 SCATTERED d p - (p - 2 * d)\<bar> \<le> 1 / 2 ^ 52)"
proof -
  define e :: real where "e = 1 / 2 ^ 54"
  have e: "(1::real) / 2 ^ 54 = e" "(1::real) / 2 ^ 53 = 2 * e" "(1::real) / 2 ^ 52 = 4 * e" "0 < e"
    by (simp_all add: e_def)
  define s where "s = f64 (2 * d)"
  define r where "r = p - s"
  define q where "q = max (f64 r) 0"
  have q: "Foliage_progress_f64 SCATTERED d p = q"
    using assms(1) by (simp add: Foliage_progress_f64_def Let_def q_def r_def s_def)
  have s0: "0 \<le> s" unfolding s_def using assms(3) by (intro f64_nonneg) simp
  have r1: "r \<le> 1" using s0 assms(2) by (simp add: r_def)
  have range: "0 \<le> q \<and> q \<le> 1" using f64_le_1[OF r1] by (simp add: q_def)
  have main: "q = 0 \<and> p - 2 * d \<le> 1 / 2 ^ 52 \<or> 0 < q \<and> \<bar>q - (p - 2 * d)\<bar> \<le> 1 / 2 ^ 52"
  proof (cases "2 \<le> 2 * d")
    case True
    then have "2 \<le> s" unfolding s_def by (rule f64_ge_2)
    then have "r \<le> 0" using assms(2) by (simp add: r_def)
    then have "q = 0" using f64_nonpos[of r] by (simp add: q_def)
    then show ?thesis using True assms(2) by simp
  next
    case False
    then have "\<bar>2 * d\<bar> < 2" using assms(3) by simp
    then have es: "\<bar>s - 2 * d\<bar> \<le> 1 / 2 ^ 53" unfolding s_def by (rule f64_error_below_2)
    show ?thesis
    proof (cases "f64 r \<le> 0")
      case True
      then have q0: "q = 0" by (simp add: q_def)
      have "r \<le> 1 / 2 ^ 53"
      proof (rule ccontr)
        assume "\<not> r \<le> 1 / 2 ^ 53"
        then have gt: "1 / 2 ^ 53 < r" by simp
        then have "\<bar>r\<bar> < 2" using r1 by simp
        then have "\<bar>f64 r - r\<bar> \<le> 1 / 2 ^ 53" by (rule f64_error_below_2)
        then show False using True gt e(4) unfolding e(1-3) by linarith
      qed
      then have "p - 2 * d \<le> 1 / 2 ^ 52" using es unfolding r_def e by linarith
      then show ?thesis using q0 by simp
    next
      case False
      then have q2: "q = f64 r" "0 < q" by (simp_all add: q_def)
      have "0 < r" using False f64_nonpos[of r] by linarith
      then have "\<bar>r\<bar> < 2" using r1 by simp
      then have "\<bar>f64 r - r\<bar> \<le> 1 / 2 ^ 53" by (rule f64_error_below_2)
      then have "\<bar>q - (p - 2 * d)\<bar> \<le> 1 / 2 ^ 52"
        using es e(4) unfolding q2(1) r_def e(1-3) by linarith
      then show ?thesis using q2(2) by simp
    qed
  qed
  show ?thesis unfolding q using range main by simp
qed


lemma Foliage_progress_frames_f64_tree_fixed: "Foliage_progress_frames_f64 TREE_SHAPE ds 1 = 1"
  by (induction ds) (simp_all add: Foliage_progress_f64_def)

lemma Foliage_progress_frames_f64_scattered_fixed: "Foliage_progress_frames_f64 SCATTERED ds 0 = 0"
  by (induction ds) (simp_all add: Foliage_progress_f64_def)

lemma Foliage_progress_frames_f64_tree_run:
  assumes "0 \<le> p" "p \<le> 1" "\<forall>d \<in> set ds. 0 \<le> d"
    and "p = 1 \<and> 1 - b \<le> P \<or> p < 1 \<and> \<bar>p - P\<bar> \<le> b"
  shows "0 \<le> Foliage_progress_frames_f64 TREE_SHAPE ds p
       \<and> Foliage_progress_frames_f64 TREE_SHAPE ds p \<le> 1
       \<and> (Foliage_progress_frames_f64 TREE_SHAPE ds p = 1
            \<and> 1 - (b + real (length ds) / 2 ^ 52) \<le> P + 2 * sum_list ds
          \<or> Foliage_progress_frames_f64 TREE_SHAPE ds p < 1
            \<and> \<bar>Foliage_progress_frames_f64 TREE_SHAPE ds p - (P + 2 * sum_list ds)\<bar>
                  \<le> b + real (length ds) / 2 ^ 52)"
  using assms
proof (induction ds arbitrary: p P b)
  case Nil
  then show ?case by simp
next
  case (Cons d ds)
  define e :: real where "e = 1 / 2 ^ 52"
  have e: "(1::real) / 2 ^ 52 = e" by (simp add: e_def)
  let ?p = "Foliage_progress_f64 TREE_SHAPE d p"
  have d: "0 \<le> d" using Cons.prems(3) by simp
  have step: "0 \<le> ?p \<and> ?p \<le> 1
      \<and> (?p = 1 \<and> 1 - (b + e) \<le> P + 2 * d \<or> ?p < 1 \<and> \<bar>?p - (P + 2 * d)\<bar> \<le> b + e)"
  proof (cases "p = 1")
    case True
    then have "?p = 1" by (simp add: Foliage_progress_f64_def)
    moreover have "1 - b \<le> P" using True Cons.prems(4) by simp
    moreover have "0 \<le> e" by (simp add: e_def)
    ultimately show ?thesis using d by simp
  next
    case False
    then have lt: "p < 1" and close: "\<bar>p - P\<bar> \<le> b" using Cons.prems(2,4) by auto
    show ?thesis
      using Foliage_progress_f64_tree_step[OF Cons.prems(1) lt d] close unfolding e by linarith
  qed
  have IH: "0 \<le> Foliage_progress_frames_f64 TREE_SHAPE ds ?p
       \<and> Foliage_progress_frames_f64 TREE_SHAPE ds ?p \<le> 1
       \<and> (Foliage_progress_frames_f64 TREE_SHAPE ds ?p = 1
            \<and> 1 - (b + e + real (length ds) / 2 ^ 52) \<le> P + 2 * d + 2 * sum_list ds
          \<or> Foliage_progress_frames_f64 TREE_SHAPE ds ?p < 1
            \<and> \<bar>Foliage_progress_frames_f64 TREE_SHAPE ds ?p - (P + 2 * d + 2 * sum_list ds)\<bar>
                  \<le> b + e + real (length ds) / 2 ^ 52)"
    using step Cons.prems(3) by (intro Cons.IH) simp_all
  have eq1: "b + e + real (length ds) / 2 ^ 52 = b + real (length (d # ds)) / 2 ^ 52"
    by (simp add: e_def add_divide_distrib)
  have eq2: "P + 2 * d + 2 * sum_list ds = P + 2 * sum_list (d # ds)" by simp
  have run: "Foliage_progress_frames_f64 TREE_SHAPE (d # ds) p =
               Foliage_progress_frames_f64 TREE_SHAPE ds ?p" by simp
  show ?case unfolding run using IH[unfolded eq1 eq2] .
qed

lemma Foliage_progress_frames_f64_scattered_run:
  assumes "0 \<le> p" "p \<le> 1" "\<forall>d \<in> set ds. 0 \<le> d"
    and "p = 0 \<and> P \<le> b \<or> 0 < p \<and> \<bar>p - P\<bar> \<le> b"
  shows "0 \<le> Foliage_progress_frames_f64 SCATTERED ds p
       \<and> Foliage_progress_frames_f64 SCATTERED ds p \<le> 1
       \<and> (Foliage_progress_frames_f64 SCATTERED ds p = 0
            \<and> P - 2 * sum_list ds \<le> b + real (length ds) / 2 ^ 52
          \<or> 0 < Foliage_progress_frames_f64 SCATTERED ds p
            \<and> \<bar>Foliage_progress_frames_f64 SCATTERED ds p - (P - 2 * sum_list ds)\<bar>
                  \<le> b + real (length ds) / 2 ^ 52)"
  using assms
proof (induction ds arbitrary: p P b)
  case Nil
  then show ?case by simp
next
  case (Cons d ds)
  define e :: real where "e = 1 / 2 ^ 52"
  have e: "(1::real) / 2 ^ 52 = e" by (simp add: e_def)
  let ?p = "Foliage_progress_f64 SCATTERED d p"
  have d: "0 \<le> d" using Cons.prems(3) by simp
  have step: "0 \<le> ?p \<and> ?p \<le> 1
      \<and> (?p = 0 \<and> P - 2 * d \<le> b + e \<or> 0 < ?p \<and> \<bar>?p - (P - 2 * d)\<bar> \<le> b + e)"
  proof (cases "p = 0")
    case True
    then have "?p = 0" by (simp add: Foliage_progress_f64_def)
    moreover have "P \<le> b" using True Cons.prems(4) by simp
    moreover have "0 \<le> e" by (simp add: e_def)
    ultimately show ?thesis using d by simp
  next
    case False
    then have gt: "0 < p" and close: "\<bar>p - P\<bar> \<le> b" using Cons.prems(1,4) by auto
    show ?thesis
      using Foliage_progress_f64_scattered_step[OF gt Cons.prems(2) d] close unfolding e by linarith
  qed
  have IH: "0 \<le> Foliage_progress_frames_f64 SCATTERED ds ?p
       \<and> Foliage_progress_frames_f64 SCATTERED ds ?p \<le> 1
       \<and> (Foliage_progress_frames_f64 SCATTERED ds ?p = 0
            \<and> P - 2 * d - 2 * sum_list ds \<le> b + e + real (length ds) / 2 ^ 52
          \<or> 0 < Foliage_progress_frames_f64 SCATTERED ds ?p
            \<and> \<bar>Foliage_progress_frames_f64 SCATTERED ds ?p - (P - 2 * d - 2 * sum_list ds)\<bar>
                  \<le> b + e + real (length ds) / 2 ^ 52)"
    using step Cons.prems(3) by (intro Cons.IH) simp_all
  have eq1: "b + e + real (length ds) / 2 ^ 52 = b + real (length (d # ds)) / 2 ^ 52"
    by (simp add: e_def add_divide_distrib)
  have eq2: "P - 2 * d - 2 * sum_list ds = P - 2 * sum_list (d # ds)" by simp
  have run: "Foliage_progress_frames_f64 SCATTERED (d # ds) p =
               Foliage_progress_frames_f64 SCATTERED ds ?p" by simp
  show ?case unfolding run using IH[unfolded eq1 eq2] .
qed

lemma Foliage_progress_frames_f64_near:
  assumes "0 \<le> p0" "p0 \<le> 1" "\<forall>d \<in> set ds. 0 \<le> d"
  shows "0 \<le> Foliage_progress_frames_f64 ts ds p0 \<and> Foliage_progress_frames_f64 ts ds p0 \<le> 1
       \<and> \<bar>Foliage_progress_frames_f64 ts ds p0 - spec_closed_form ts p0 ds\<bar>
            \<le> real (length ds) / 2 ^ 52
       \<and> (ts = TREE_SHAPE \<and> 1 + real (length ds) / 2 ^ 52 \<le> p0 + 2 * sum_list ds \<longrightarrow>
            Foliage_progress_frames_f64 ts ds p0 = 1)
       \<and> (ts = SCATTERED \<and> p0 - 2 * sum_list ds \<le> - (real (length ds) / 2 ^ 52) \<longrightarrow>
            Foliage_progress_frames_f64 ts ds p0 = 0)"
proof (cases ts)
  case TREE_SHAPE
  have "p0 = 1 \<and> 1 - 0 \<le> p0 \<or> p0 < 1 \<and> \<bar>p0 - p0\<bar> \<le> 0" using assms(2) by auto
  from Foliage_progress_frames_f64_tree_run[OF assms this] show ?thesis
    unfolding TREE_SHAPE spec_closed_form_def by (auto simp: min_def abs_le_iff)
next
  case SCATTERED
  have "p0 = 0 \<and> p0 \<le> 0 \<or> 0 < p0 \<and> \<bar>p0 - p0\<bar> \<le> 0" using assms(1) by auto
  from Foliage_progress_frames_f64_scattered_run[OF assms this] show ?thesis
    unfolding SCATTERED spec_closed_form_def by (auto simp: max_def abs_le_iff)
qed



lemma Spiral_progress_f64_eq: "Spiral_progress_f64 = Foliage_progress_f64"
  by (intro ext) (simp add: Spiral_progress_f64_def Foliage_progress_f64_def)

lemma Spiral_progress_frames_f64_eq:
  "Spiral_progress_frames_f64 ts ds p = Foliage_progress_frames_f64 ts ds p"
  by (induction ds arbitrary: p) (simp_all add: Spiral_progress_f64_eq)

lemma Foliage_progress_frames_f64_target:
  "Foliage_progress_frames_f64 ts ds (spec_target ts) = spec_target ts"
  by (cases ts)
     (simp_all add: spec_target_def Foliage_progress_frames_f64_tree_fixed
        Foliage_progress_frames_f64_scattered_fixed)

text \<open>
  C3, as the code has it. Under a constant toggle state, after \<open>n\<close> frames with nonnegative
  elapsed time steps \<open>d1..dn\<close> the progress value of Foliage, and likewise of Spiral,
  started at \<open>p0\<close> in \<open>[0, 1]\<close>, lies in \<open>[0, 1]\<close> and differs from
  \<open>min(p0 + 2.0*(d1+...+dn), 1.0)\<close> for \<open>TREE_SHAPE\<close>, from \<open>max(p0 - 2.0*(d1+...+dn), 0.0)\<close>
  for \<open>SCATTERED\<close>, by at most \<open>n * 2^-52\<close>, the rounding of the double additions. It equals
  the target exactly once \<open>2.0*(d1+...+dn)\<close> covers the distance to the target and
  \<open>n * 2^-52\<close> more (from an endpoint: once the accumulated delta reaches
  \<open>0.5 + n * 2^-53\<close>), and a progress value at the target stays there.
\<close>

theorem C3_progress_near_closed_form:
  assumes "0 \<le> p0" and "p0 \<le> 1" and "\<forall>d \<in> set deltas. 0 \<le> d"
  shows "0 \<le> Foliage_progress_frames_f64 ts deltas p0
       \<and> Foliage_progress_frames_f64 ts deltas p0 \<le> 1
       \<and> \<bar>Foliage_progress_frames_f64 ts deltas p0 - spec_closed_form ts p0 deltas\<bar>
            \<le> real (length deltas) / 2 ^ 52
       \<and> (ts = TREE_SHAPE \<and> 1 + real (length deltas) / 2 ^ 52 \<le> p0 + 2 * sum_list deltas \<longrightarrow>
            Foliage_progress_frames_f64 ts deltas p0 = 1)
       \<and> (ts = SCATTERED \<and> p0 - 2 * sum_list deltas \<le> - (real (length deltas) / 2 ^ 52) \<longrightarrow>
            Foliage_progress_frames_f64 ts deltas p0 = 0)
       \<and> Foliage_progress_frames_f64 ts deltas (spec_target ts) = spec_target ts
       \<and> 0 \<le> Spiral_progress_frames_f64 ts deltas p0
       \<and> Spiral_progress_frames_f64 ts deltas p0 \<le> 1
       \<and> \<bar>Spiral_progress_frames_f64 ts deltas p0 - spec_closed_form ts p0 deltas\<bar>
            \<le> real (length deltas) / 2 ^ 52
       \<and> (ts = TREE_SHAPE \<and> 1 + real (length deltas) / 2 ^ 52 \<le> p0 + 2 * sum_list deltas \<longrightarrow>
            Spiral_progress_frames_f64 ts deltas p0 = 1)
       \<and> (ts = SCATTERED \<and> p0 - 2 * sum_list deltas \<le> - (real (length deltas) / 2 ^ 52) \<longrightarrow>
            Spiral_progress_frames_f64 ts deltas p0 = 0)
       \<and> Spiral_progress_frames_f64 ts deltas (spec_target ts) = spec_target ts"
  unfolding Spiral_progress_frames_f64_eq
  using Foliage_progress_frames_f64_near[OF assms, of ts]
    Foliage_progress_frames_f64_target[of ts deltas]
  by blast

theorem C3_progress_near_closed_form_witness:
  "(0::real) \<le> 0 \<and> (0::real) \<le> 1 \<and> (0::real) \<le> 1 / 4 \<and> (0::real) \<le> 1 / 2
   \<and> Foliage_progress_frames_f64 TREE_SHAPE [1 / 4, 1 / 2] 0 = 1
   \<and> Spiral_progress_frames_f64 TREE_SHAPE [1 / 4, 1 / 2] 0 = 1
   \<and> spec_closed_form TREE_SHAPE 0 [1 / 4, 1 / 2] = 1"
  using C3_progress_near_closed_form[of 0 "[1 / 4, 1 / 2]" TREE_SHAPE]
  by (simp add: spec_closed_form_def)

subsection \<open>Five frames of a tenth of a second\<close>

lemma f64_tenth: "f64 tenth_f64 = tenth_f64"
  unfolding f64_def tenth_f64_def
  by (subst round_binary_eval[where k = "- 4"]) (simp_all add: round_even_def powr_neg_numeral)

lemma f64_tenth_speed: "f64 (2.0 * tenth_f64) = 3602879701896397 / 2 ^ 54"
  unfolding f64_def tenth_f64_def
  by (subst round_binary_eval[where k = "- 3"]) (simp_all add: round_even_def powr_neg_numeral)

lemma f64_tenth_r1: "f64 (1 - 3602879701896397 / 2 ^ 54) = 3602879701896397 / 2 ^ 52"
  unfolding f64_def
  by (subst round_binary_eval[where k = "- 1"]) (simp_all add: round_even_def powr_neg_numeral)

lemma f64_tenth_r2: "f64 (3602879701896397 / 2 ^ 52 - 3602879701896397 / 2 ^ 54) = 1351079888211149 / 2 ^ 51"
  unfolding f64_def
  by (subst round_binary_eval[where k = "- 1"]) (simp_all add: round_even_def powr_neg_numeral)

lemma f64_tenth_r3: "f64 (1351079888211149 / 2 ^ 51 - 3602879701896397 / 2 ^ 54) = 7205759403792795 / 2 ^ 54"
  unfolding f64_def
  by (subst round_binary_eval[where k = "- 2"]) (simp_all add: round_even_def powr_neg_numeral)

lemma f64_tenth_r4: "f64 (7205759403792795 / 2 ^ 54 - 3602879701896397 / 2 ^ 54) = 1801439850948199 / 2 ^ 53"
  unfolding f64_def
  by (subst round_binary_eval[where k = "- 3"]) (simp_all add: round_even_def powr_neg_numeral)

lemma f64_tenth_r5: "f64 (1801439850948199 / 2 ^ 53 - 3602879701896397 / 2 ^ 54) = 1 / 2 ^ 54"
  unfolding f64_def
  by (subst round_binary_eval[where k = "- 54"]) (simp_all add: round_even_def powr_neg_numeral)

lemma tenth_step1: "Foliage_progress_f64 SCATTERED tenth_f64 1 = 3602879701896397 / 2 ^ 52"
  unfolding Foliage_progress_f64_def Let_def f64_tenth_speed
  by (simp only: f64_tenth_r1) simp

lemma tenth_step2: "Foliage_progress_f64 SCATTERED tenth_f64 (3602879701896397 / 2 ^ 52) = 1351079888211149 / 2 ^ 51"
  unfolding Foliage_progress_f64_def Let_def f64_tenth_speed
  by (simp only: f64_tenth_r2) simp

lemma tenth_step3: "Foliage_progress_f64 SCATTERED tenth_f64 (1351079888211149 / 2 ^ 51) = 7205759403792795 / 2 ^ 54"
  unfolding Foliage_progress_f64_def Let_def f64_tenth_speed
  by (simp only: f64_tenth_r3) simp

lemma tenth_step4: "Foliage_progress_f64 SCATTERED tenth_f64 (7205759403792795 / 2 ^ 54) = 1801439850948199 / 2 ^ 53"
  unfolding Foliage_progress_f64_def Let_def f64_tenth_speed
  by (simp only: f64_tenth_r4) simp

lemma tenth_step5: "Foliage_progress_f64 SCATTERED tenth_f64 (1801439850948199 / 2 ^ 53) = 1 / 2 ^ 54"
  unfolding Foliage_progress_f64_def Let_def f64_tenth_speed
  by (simp only: f64_tenth_r5) simp


text \<open>
  C3, as the specification words it, fails. From progress 1 under \<open>SCATTERED\<close>, five frames
  of the double 0.1 accumulate a delta of at least 0.5, and the closed form is 0; the
  progress value of the code goes \<open>0.8, 0.6000000000000001, 0.4000000000000001,
  0.20000000000000007\<close> and ends at \<open>2^-54\<close>, not at the target.
\<close>

theorem C3_closed_form_not_exact:
  "Foliage_progress_frames_f64 SCATTERED [tenth_f64, tenth_f64, tenth_f64, tenth_f64, tenth_f64] 1
     \<noteq> spec_closed_form SCATTERED 1 [tenth_f64, tenth_f64, tenth_f64, tenth_f64, tenth_f64]
   \<and> Spiral_progress_frames_f64 SCATTERED [tenth_f64, tenth_f64, tenth_f64, tenth_f64, tenth_f64] 1
     \<noteq> spec_closed_form SCATTERED 1 [tenth_f64, tenth_f64, tenth_f64, tenth_f64, tenth_f64]
   \<and> Foliage_progress_frames_f64 SCATTERED [tenth_f64, tenth_f64, tenth_f64, tenth_f64, tenth_f64] 1
       = 1 / 2 ^ 54
   \<and> spec_closed_form SCATTERED 1 [tenth_f64, tenth_f64, tenth_f64, tenth_f64, tenth_f64] = 0
   \<and> 0.5 \<le> sum_list [tenth_f64, tenth_f64, tenth_f64, tenth_f64, tenth_f64]
   \<and> f64 tenth_f64 = tenth_f64"
  unfolding Spiral_progress_frames_f64_eq Foliage_progress_frames_f64.simps
    tenth_step1 tenth_step2 tenth_step3 tenth_step4 tenth_step5 f64_tenth
  by (simp add: spec_closed_form_def tenth_f64_def)

section \<open>Ornaments: easing and blending\<close>

lemma easedT_0: "easedT 0 = 0"
  by (simp add: easedT_def)

lemma easedT_1: "easedT 1 = 1"
  by (simp add: easedT_def)

lemma easedT_low: "t < 1 / 2 \<Longrightarrow> easedT t = 4 * t ^ 3"
  by (simp add: easedT_def power3_eq_cube)

lemma easedT_high: "1 / 2 \<le> t \<Longrightarrow> easedT t = 1 - (2 - 2 * t) ^ 3 / 2"
  by (simp add: easedT_def)

lemma easedT_low_bounds:
  assumes "0 \<le> t" "t < 1 / 2"
  shows "0 \<le> easedT t \<and> easedT t \<le> 1 / 2"
proof -
  have "t ^ 3 \<le> (1 / 2) ^ 3"
    using assms by (intro power_mono) simp_all
  moreover have "0 \<le> t ^ 3" using assms(1) by simp
  ultimately show ?thesis
    using assms(2) by (simp add: easedT_low power_one_over)
qed

lemma easedT_high_bounds:
  assumes "1 / 2 \<le> t" "t \<le> 1"
  shows "1 / 2 \<le> easedT t \<and> easedT t \<le> 1"
proof -
  have "(2 - 2 * t) ^ 3 \<le> 1 ^ 3"
    using assms by (intro power_mono) simp_all
  moreover have "0 \<le> (2 - 2 * t) ^ 3" using assms(2) by simp
  ultimately show ?thesis
    using assms(1) by (simp add: easedT_high)
qed

lemma easedT_range:
  assumes "0 \<le> t" "t \<le> 1"
  shows "0 \<le> easedT t \<and> easedT t \<le> 1"
proof (cases "t < 1 / 2")
  case True
  then show ?thesis using easedT_low_bounds[OF assms(1)] by simp
next
  case False
  then show ?thesis using easedT_high_bounds[OF _ assms(2)] by simp
qed

lemma easedT_mono:
  assumes "0 \<le> s" "s \<le> t" "t \<le> 1"
  shows "easedT s \<le> easedT t"
proof -
  consider (low) "t < 1 / 2" | (cross) "s < 1 / 2" "1 / 2 \<le> t" | (high) "1 / 2 \<le> s"
    by linarith
  then show ?thesis
  proof cases
    case low
    then have "s < 1 / 2" using assms(2) by simp
    moreover have "s ^ 3 \<le> t ^ 3" using assms(2,1) by (rule power_mono)
    ultimately show ?thesis using low by (simp add: easedT_low)
  next
    case cross
    have "easedT s \<le> 1 / 2" using easedT_low_bounds[OF assms(1) cross(1)] by simp
    moreover have "1 / 2 \<le> easedT t" using easedT_high_bounds[OF cross(2) assms(3)] by simp
    ultimately show ?thesis by simp
  next
    case high
    then have t: "1 / 2 \<le> t" using assms(2) by simp
    have "(2 - 2 * t) ^ 3 \<le> (2 - 2 * s) ^ 3"
      using assms(2,3) by (intro power_mono) simp_all
    then show ?thesis using high t by (simp add: easedT_high)
  qed
qed

lemma lerp_0: "lerp x y 0 = x"
  by (simp add: lerp_def)

lemma lerp_1: "lerp x y 1 = y"
  by (simp add: lerp_def)

lemma blend_position_0: "blend_position d 0 = od_scatterPos d"
  by (simp add: blend_position_def lerp_0)

lemma blend_position_1: "blend_position d 1 = od_treePos d"
  by (simp add: blend_position_def lerp_1)

subsection \<open>The instance loops\<close>

lemma forEach_instance_length:
  "length (snd (forEach_instance body ds i (tmp, mesh))) = length mesh"
  by (induction ds arbitrary: i tmp mesh) (simp_all add: Let_def)

lemma forEach_instance_before:
  "k < i \<Longrightarrow> snd (forEach_instance body ds i (tmp, mesh)) ! k = mesh ! k"
  by (induction ds arbitrary: i tmp mesh) (simp_all add: Let_def)

text \<open>
  After the loop, the matrix at the index of a data item is the one \<open>updateMatrix\<close> composed
  while that item was visited, for some earlier contents of \<open>tempObject\<close>.
\<close>

lemma forEach_instance_nth:
  assumes "j < length ds" "i + j < length mesh"
  shows "\<exists>tmp'. snd (forEach_instance body ds i (tmp, mesh)) ! (i + j) = o_matrix (body (ds ! j) tmp')"
  using assms
proof (induction ds arbitrary: i j tmp mesh)
  case Nil
  then show ?case by simp
next
  case (Cons d ds)
  show ?case
  proof (cases j)
    case 0
    have "snd (forEach_instance body (d # ds) i (tmp, mesh)) ! i = o_matrix (body d tmp)"
      using Cons.prems(2) by (simp add: Let_def forEach_instance_before)
    then show ?thesis using 0 by auto
  next
    case (Suc j')
    have "\<exists>tmp'. snd (forEach_instance body ds (Suc i) (body d tmp, mesh[i := o_matrix (body d tmp)]))
                   ! (Suc i + j') = o_matrix (body (ds ! j') tmp')"
      using Cons.prems Suc by (intro Cons.IH) simp_all
    then show ?thesis using Suc by (simp add: Let_def)
  qed
qed

lemma sphere_body_position:
  "m_position (o_matrix (sphere_body e time d tmp)) = blend_position d e"
  by (simp add: sphere_body_def updateMatrix_def Let_def)

lemma box_body_position:
  "m_position (o_matrix (box_body t e time d tmp)) =
     (blend_position d e)
       \<lparr>vy := vy (blend_position d e) +
               (if t < 0.9 then sin (time + real (od_id d)) * ((1 - t) * 0.5) else 0)\<rparr>"
  by (simp add: box_body_def updateMatrix_def Let_def)

lemma Ornaments_useFrame_sphereMesh:
  assumes "or_sphereMeshRef ob = Some spheres"
  shows "\<exists>tmp. or_sphereMeshRef (Ornaments_useFrame ts st delta ob) =
           Some (snd (forEach_instance
                        (sphere_body (easedT (Ornaments_progress ts delta (or_progressRef ob)))
                           (clock_elapsedTime st))
                        (or_sphereData ob) 0 (tmp, spheres)))"
  using assms
  by (cases "or_boxMeshRef ob") (auto simp: Ornaments_useFrame_def Let_def case_prod_beta)

lemma Ornaments_useFrame_boxMesh:
  assumes "or_boxMeshRef ob = Some boxes"
  shows "or_boxMeshRef (Ornaments_useFrame ts st delta ob) =
           Some (snd (forEach_instance
                        (box_body (Ornaments_progress ts delta (or_progressRef ob))
                           (easedT (Ornaments_progress ts delta (or_progressRef ob)))
                           (clock_elapsedTime st))
                        (or_boxData ob) 0 (or_tempObject ob, boxes)))"
  using assms
  by (cases "or_sphereMeshRef ob") (auto simp: Ornaments_useFrame_def Let_def case_prod_beta)

lemma Ornaments_useFrame_spheres:
  assumes "or_sphereMeshRef ob = Some spheres" "j < length (or_sphereData ob)" "j < length spheres"
  shows "\<exists>spheres'. or_sphereMeshRef (Ornaments_useFrame ts st delta ob) = Some spheres'
           \<and> m_position (spheres' ! j) =
               blend_position (or_sphereData ob ! j)
                 (easedT (or_progressRef (Ornaments_useFrame ts st delta ob)))"
proof -
  let ?t = "Ornaments_progress ts delta (or_progressRef ob)"
  let ?body = "sphere_body (easedT ?t) (clock_elapsedTime st)"
  obtain tmp where mesh: "or_sphereMeshRef (Ornaments_useFrame ts st delta ob) =
      Some (snd (forEach_instance ?body (or_sphereData ob) 0 (tmp, spheres)))"
    using Ornaments_useFrame_sphereMesh[OF assms(1)] by blast
  obtain tmp' where "snd (forEach_instance ?body (or_sphereData ob) 0 (tmp, spheres)) ! (0 + j) =
                 o_matrix (?body (or_sphereData ob ! j) tmp')"
    using forEach_instance_nth[of j "or_sphereData ob" 0 spheres ?body tmp] assms(2,3) by auto
  then have "m_position (snd (forEach_instance ?body (or_sphereData ob) 0 (tmp, spheres)) ! j) =
             blend_position (or_sphereData ob ! j) (easedT ?t)"
    by (simp add: sphere_body_position)
  then show ?thesis
    using mesh by (simp add: Ornaments_useFrame_progress)
qed

lemma Ornaments_useFrame_boxes:
  assumes "or_boxMeshRef ob = Some boxes" "i < length (or_boxData ob)" "i < length boxes"
  shows "\<exists>boxes'. or_boxMeshRef (Ornaments_useFrame ts st delta ob) = Some boxes'
           \<and> m_position (boxes' ! i) =
               (let t = or_progressRef (Ornaments_useFrame ts st delta ob);
                    d = or_boxData ob ! i;
                    p = blend_position d (easedT t)
                in p\<lparr>vy := vy p + (if t < 0.9
                                     then sin (clock_elapsedTime st + real (od_id d)) * ((1 - t) * 0.5)
                                     else 0)\<rparr>)"
proof -
  let ?t = "Ornaments_progress ts delta (or_progressRef ob)"
  let ?body = "box_body ?t (easedT ?t) (clock_elapsedTime st)"
  have mesh: "or_boxMeshRef (Ornaments_useFrame ts st delta ob) =
      Some (snd (forEach_instance ?body (or_boxData ob) 0 (or_tempObject ob, boxes)))"
    using Ornaments_useFrame_boxMesh[OF assms(1)] .
  obtain tmp' where "snd (forEach_instance ?body (or_boxData ob) 0 (or_tempObject ob, boxes)) ! (0 + i) =
                 o_matrix (?body (or_boxData ob ! i) tmp')"
    using forEach_instance_nth[of i "or_boxData ob" 0 boxes ?body "or_tempObject ob"] assms(2,3) by auto
  then have "m_position (snd (forEach_instance ?body (or_boxData ob) 0 (or_tempObject ob, boxes)) ! i) =
             (blend_position (or_boxData ob ! i) (easedT ?t))
               \<lparr>vy := vy (blend_position (or_boxData ob ! i) (easedT ?t)) +
                 (if ?t < 0.9 then sin (clock_elapsedTime st + real (od_id (or_boxData ob ! i))) * ((1 - ?t) * 0.5)
                  else 0)\<rparr>"
    by (simp add: box_body_position)
  then show ?thesis
    using mesh by (simp add: Ornaments_useFrame_progress Let_def)
qed

text \<open>
  C9. The easing function of Ornaments maps \<open>[0, 1]\<close> into \<open>[0, 1]\<close>, is monotonically
  non-decreasing on \<open>[0, 1]\<close> and fixes 0 and 1; so the position an instance is given before
  any noise is added is its scatter position at progress 0 and its tree position at
  progress 1. On a frame that ends at progress 0 a sphere instance is at its scatter
  position, and on a frame that ends at progress 1 a sphere instance and a box instance
  are at their tree positions.
\<close>

theorem C9_easedT_unit_interval_monotone_endpoints:
  "(0 \<le> t \<and> t \<le> 1 \<longrightarrow> 0 \<le> easedT t \<and> easedT t \<le> 1)
   \<and> (0 \<le> s \<and> s \<le> t \<and> t \<le> 1 \<longrightarrow> easedT s \<le> easedT t)
   \<and> easedT 0 = 0 \<and> easedT 1 = 1
   \<and> blend_position d (easedT 0) = od_scatterPos d
   \<and> blend_position d (easedT 1) = od_treePos d
   \<and> (or_sphereMeshRef ob = Some spheres \<and> j < length (or_sphereData ob) \<and> j < length spheres
        \<and> or_progressRef (Ornaments_useFrame ts st delta ob) = 0 \<longrightarrow>
          m_position (the (or_sphereMeshRef (Ornaments_useFrame ts st delta ob)) ! j) =
            od_scatterPos (or_sphereData ob ! j))
   \<and> (or_sphereMeshRef ob = Some spheres \<and> j < length (or_sphereData ob) \<and> j < length spheres
        \<and> or_progressRef (Ornaments_useFrame ts st delta ob) = 1 \<longrightarrow>
          m_position (the (or_sphereMeshRef (Ornaments_useFrame ts st delta ob)) ! j) =
            od_treePos (or_sphereData ob ! j))
   \<and> (or_boxMeshRef ob = Some boxes \<and> i < length (or_boxData ob) \<and> i < length boxes
        \<and> or_progressRef (Ornaments_useFrame ts st delta ob) = 1 \<longrightarrow>
          m_position (the (or_boxMeshRef (Ornaments_useFrame ts st delta ob)) ! i) =
            od_treePos (or_boxData ob ! i))"
proof -
  have sph: "m_position (the (or_sphereMeshRef (Ornaments_useFrame ts st delta ob)) ! j) =
               blend_position (or_sphereData ob ! j)
                 (easedT (or_progressRef (Ornaments_useFrame ts st delta ob)))"
    if "or_sphereMeshRef ob = Some spheres" "j < length (or_sphereData ob)" "j < length spheres"
    using Ornaments_useFrame_spheres[OF that, of ts st delta] by auto
  have box: "m_position (the (or_boxMeshRef (Ornaments_useFrame ts st delta ob)) ! i) =
               od_treePos (or_boxData ob ! i)"
    if "or_boxMeshRef ob = Some boxes" "i < length (or_boxData ob)" "i < length boxes"
       "or_progressRef (Ornaments_useFrame ts st delta ob) = 1"
    using Ornaments_useFrame_boxes[OF that(1-3), of ts st delta] that(4)
    by (auto simp: Let_def easedT_1 blend_position_1)
  show ?thesis
    using easedT_range[of t] easedT_mono[of s t] sph box
    by (simp add: easedT_0 easedT_1 blend_position_0 blend_position_1)
qed

theorem C9_easedT_unit_interval_monotone_endpoints_witness:
  "(0::real) \<le> 1 / 4 \<and> (1 / 4::real) \<le> 3 / 4 \<and> (3 / 4::real) \<le> 1
   \<and> 0 \<le> easedT (3 / 4) \<and> easedT (3 / 4) \<le> 1
   \<and> easedT (1 / 4) \<le> easedT (3 / 4)
   \<and> blend_position example_ornament (easedT 0) = od_scatterPos example_ornament
   \<and> blend_position example_ornament (easedT 1) = od_treePos example_ornament
   \<and> or_progressRef (Ornaments_useFrame TREE_SHAPE example_state 1 example_Ornaments) = 1
   \<and> m_position (the (or_sphereMeshRef (Ornaments_useFrame TREE_SHAPE example_state 1 example_Ornaments)) ! 0) =
       od_treePos example_ornament
   \<and> m_position (the (or_boxMeshRef (Ornaments_useFrame TREE_SHAPE example_state 1 example_Ornaments)) ! 0) =
       od_treePos example_ornament"
  using C9_easedT_unit_interval_monotone_endpoints
          [of "3 / 4" "1 / 4" example_ornament example_Ornaments "[o_matrix example_tempObject]" 0
              TREE_SHAPE example_state 1 "[o_matrix example_tempObject]" 0]
  by (simp add: easedT_0 easedT_1 example_Ornaments_def Ornaments_useFrame_progress
        Ornaments_progress_def)

text \<open>
  C2, as the code has it. On every frame of Ornaments with both meshes attached, the
  position of each instance is the componentwise linear interpolation between its scatter
  position and its tree position at the blend parameter \<open>easedT(t)\<close>, the cubic ease-in-out
  of the progress value \<open>t\<close> reached in that frame. A box instance has
  \<open>sin(time + id) * (1 - t) * 0.5\<close> added to its \<open>y\<close> while \<open>t < 0.9\<close>; a sphere instance has
  nothing added to its position.
\<close>

theorem C2_position_blended_at_eased_progress:
  assumes "or_boxMeshRef ob = Some boxes" and "or_sphereMeshRef ob = Some spheres"
    and "i < length (or_boxData ob)" and "i < length boxes"
    and "j < length (or_sphereData ob)" and "j < length spheres"
  shows "\<exists>boxes' spheres'.
           or_boxMeshRef (Ornaments_useFrame ts st delta ob) = Some boxes'
         \<and> or_sphereMeshRef (Ornaments_useFrame ts st delta ob) = Some spheres'
         \<and> m_position (spheres' ! j) =
             blend_position (or_sphereData ob ! j)
               (easedT (or_progressRef (Ornaments_useFrame ts st delta ob)))
         \<and> m_position (boxes' ! i) =
             (let t = or_progressRef (Ornaments_useFrame ts st delta ob);
                  d = or_boxData ob ! i;
                  p = blend_position d (easedT t)
              in p\<lparr>vy := vy p + (if t < 0.9
                                   then sin (clock_elapsedTime st + real (od_id d)) * ((1 - t) * 0.5)
                                   else 0)\<rparr>)"
  using Ornaments_useFrame_boxes[OF assms(1,3,4), of ts st delta]
    Ornaments_useFrame_spheres[OF assms(2,5,6), of ts st delta]
  by blast

theorem C2_position_blended_at_eased_progress_witness:
  "or_boxMeshRef example_Ornaments = Some [o_matrix example_tempObject]
   \<and> or_sphereMeshRef example_Ornaments = Some [o_matrix example_tempObject]
   \<and> or_progressRef (Ornaments_useFrame TREE_SHAPE example_state (1 / 2) example_Ornaments) = 3 / 4
   \<and> m_position
       (the (or_sphereMeshRef (Ornaments_useFrame TREE_SHAPE example_state (1 / 2) example_Ornaments)) ! 0) =
         blend_position example_ornament (easedT (3 / 4))
   \<and> m_position
       (the (or_boxMeshRef (Ornaments_useFrame TREE_SHAPE example_state (1 / 2) example_Ornaments)) ! 0) =
         blend_position example_ornament (easedT (3 / 4))"
  using C2_position_blended_at_eased_progress
          [of example_Ornaments "[o_matrix example_tempObject]" "[o_matrix example_tempObject]" 0 0
              TREE_SHAPE example_state "1 / 2"]
  by (auto simp: example_Ornaments_def example_state_def example_ornament_def
        Ornaments_useFrame_progress Ornaments_progress_def Let_def)

text \<open>
  C2, as the specification words it, fails: after one frame of \<open>1/2\<close> s toward the tree the
  progress value is \<open>3/4\<close>, and the sphere and the box instance are both at \<open>x = 15\<close>, the
  interpolation at \<open>easedT(3/4) = 15/16\<close>, while the interpolation at the progress value
  itself is at \<open>x = 12\<close>. No noise is added to \<open>x\<close>.
\<close>

theorem C2_blend_parameter_is_not_progress:
  "vx (m_position
       (the (or_sphereMeshRef (Ornaments_useFrame TREE_SHAPE example_state (1 / 2) example_Ornaments)) ! 0))
     \<noteq> vx (blend_position example_ornament
             (or_progressRef (Ornaments_useFrame TREE_SHAPE example_state (1 / 2) example_Ornaments)))
   \<and> vx (m_position
       (the (or_boxMeshRef (Ornaments_useFrame TREE_SHAPE example_state (1 / 2) example_Ornaments)) ! 0))
     \<noteq> vx (blend_position example_ornament
             (or_progressRef (Ornaments_useFrame TREE_SHAPE example_state (1 / 2) example_Ornaments)))
   \<and> or_progressRef (Ornaments_useFrame TREE_SHAPE example_state (1 / 2) example_Ornaments) = 3 / 4
   \<and> vx (m_position
       (the (or_sphereMeshRef (Ornaments_useFrame TREE_SHAPE example_state (1 / 2) example_Ornaments)) ! 0)) = 15
   \<and> vx (m_position
       (the (or_boxMeshRef (Ornaments_useFrame TREE_SHAPE example_state (1 / 2) example_Ornaments)) ! 0)) = 15
   \<and> vx (blend_position example_ornament
       (or_progressRef (Ornaments_useFrame TREE_SHAPE example_state (1 / 2) example_Ornaments))) = 12"
  by (simp add: Ornaments_useFrame_def Ornaments_progress_def example_Ornaments_def
        example_ornament_def example_state_def example_tempObject_def zero3_def
        Let_def sphere_body_def box_body_def updateMatrix_def blend_position_def lerp_def
        easedT_def power3_eq_cube)


section \<open>The generated point sets\<close>

lemma fold_upt_Suc: "fold f [0 ..< Suc m] a = f m (fold f [0 ..< m] a)"
  by simp


lemma circle_point_norm: "sqrt ((cos a * r)\<^sup>2 + (sin a * r)\<^sup>2) = \<bar>r\<bar>"
proof -
  have "(cos a * r)\<^sup>2 + (sin a * r)\<^sup>2 = r\<^sup>2 * ((cos a)\<^sup>2 + (sin a)\<^sup>2)"
    by algebra
  then show ?thesis by simp
qed

subsection \<open>Spiral\<close>

lemma Spiral_loop_body_length:
  "length (sp_treePositions (snd (Spiral_loop_body c rng i kg))) = length (sp_treePositions (snd kg))"
  by (simp add: Spiral_loop_body_def Let_def)

lemma Spiral_loop_body_other:
  assumes "n \<noteq> i * 3" "n \<noteq> i * 3 + 1" "n \<noteq> i * 3 + 2"
  shows "sp_treePositions (snd (Spiral_loop_body c rng i kg)) ! n = sp_treePositions (snd kg) ! n"
  using assms by (simp add: Spiral_loop_body_def Let_def)

lemma Spiral_loop_body_written:
  assumes "i * 3 + 2 < length (sp_treePositions (snd kg))"
  shows "sp_treePositions (snd (Spiral_loop_body c rng i kg)) ! (i * 3) =
           cos (real i / real (SPIRAL_PARTICLE_COUNT c) * pi * 2 * 6.0) *
           max 0.1 (((TREE_HEIGHT c / 2 -
                       (- (TREE_HEIGHT c / 2) + real i / real (SPIRAL_PARTICLE_COUNT c) * TREE_HEIGHT c
                          + 1.0 - 1.0)) / TREE_HEIGHT c) * TREE_RADIUS_BOTTOM c + 0.6)"
    and "sp_treePositions (snd (Spiral_loop_body c rng i kg)) ! (i * 3 + 2) =
           sin (real i / real (SPIRAL_PARTICLE_COUNT c) * pi * 2 * 6.0) *
           max 0.1 (((TREE_HEIGHT c / 2 -
                       (- (TREE_HEIGHT c / 2) + real i / real (SPIRAL_PARTICLE_COUNT c) * TREE_HEIGHT c
                          + 1.0 - 1.0)) / TREE_HEIGHT c) * TREE_RADIUS_BOTTOM c + 0.6)"
  using assms by (simp_all add: Spiral_loop_body_def Let_def)

lemma Spiral_steps_length:
  "length (sp_treePositions (snd (fold (Spiral_loop_body c rng) [0 ..< m] kg))) =
     length (sp_treePositions (snd kg))"
  by (induction m) (simp_all add: Spiral_loop_body_length)

lemma Spiral_steps_entry:
  assumes "i < m" "m * 3 \<le> length (sp_treePositions (snd kg))"
  shows "let tPos = sp_treePositions (snd (fold (Spiral_loop_body c rng) [0 ..< m] kg));
             p = real i / real (SPIRAL_PARTICLE_COUNT c);
             y = - (TREE_HEIGHT c / 2) + p * TREE_HEIGHT c + 1.0;
             rawRadius = ((TREE_HEIGHT c / 2 - (y - 1.0)) / TREE_HEIGHT c) * TREE_RADIUS_BOTTOM c;
             r = max 0.1 (rawRadius + 0.6);
             angle = p * pi * 2 * 6.0
         in tPos ! (i * 3) = cos angle * r \<and> tPos ! (i * 3 + 2) = sin angle * r"
  using assms
proof (induction m)
  case 0
  then show ?case by simp
next
  case (Suc m)
  let ?prev = "fold (Spiral_loop_body c rng) [0 ..< m] kg"
  have step: "fold (Spiral_loop_body c rng) [0 ..< Suc m] kg = Spiral_loop_body c rng m ?prev"
    by (rule fold_upt_Suc)
  have len: "length (sp_treePositions (snd ?prev)) = length (sp_treePositions (snd kg))"
    by (rule Spiral_steps_length)
  show ?case
  proof (cases "i = m")
    case True
    have "m * 3 + 2 < length (sp_treePositions (snd ?prev))"
      using Suc.prems(2) len by simp
    then show ?thesis
      unfolding step True Let_def
      using Spiral_loop_body_written[of m ?prev c rng] by simp
  next
    case False
    then have im: "i < m" using Suc.prems(1) by simp
    then have ne: "i * 3 \<noteq> m * 3" "i * 3 \<noteq> m * 3 + 1" "i * 3 \<noteq> m * 3 + 2"
      "i * 3 + 2 \<noteq> m * 3" "i * 3 + 2 \<noteq> m * 3 + 1" "i * 3 + 2 \<noteq> m * 3 + 2"
      by simp_all
    have "m * 3 \<le> length (sp_treePositions (snd kg))" using Suc.prems(2) by simp
    then show ?thesis
      unfolding step
      using Suc.IH[OF im] ne by (simp add: Let_def Spiral_loop_body_other)
  qed
qed

text \<open>
  C10. Every particle of the tree-shape helix of the Spiral lies at the horizontal distance
  \<open>r = max(0.1, rawRadius + 0.6)\<close> from the axis, which is at least 0.1. (\<open>TREE_HEIGHT\<close> is
  taken nonzero, so that the division of the source is the division of the model.)
\<close>

theorem C10_spiral_radius_at_least_tenth:
  assumes "i < SPIRAL_PARTICLE_COUNT c" and "TREE_HEIGHT c \<noteq> 0"
  shows "let tPos = sp_treePositions (Spiral_generate c rng);
             p = real i / real (SPIRAL_PARTICLE_COUNT c);
             y = - (TREE_HEIGHT c / 2) + p * TREE_HEIGHT c + 1.0;
             rawRadius = ((TREE_HEIGHT c / 2 - (y - 1.0)) / TREE_HEIGHT c) * TREE_RADIUS_BOTTOM c
         in sqrt ((tPos ! (i * 3))\<^sup>2 + (tPos ! (i * 3 + 2))\<^sup>2) = max 0.1 (rawRadius + 0.6)
          \<and> 0.1 \<le> sqrt ((tPos ! (i * 3))\<^sup>2 + (tPos ! (i * 3 + 2))\<^sup>2)"
proof -
  define r where "r = max 0.1 (((TREE_HEIGHT c / 2 -
      (- (TREE_HEIGHT c / 2) + real i / real (SPIRAL_PARTICLE_COUNT c) * TREE_HEIGHT c + 1.0 - 1.0))
        / TREE_HEIGHT c) * TREE_RADIUS_BOTTOM c + 0.6)"
  define a where "a = real i / real (SPIRAL_PARTICLE_COUNT c) * pi * 2 * 6.0"
  have r: "0.1 \<le> r" by (simp add: r_def)
  have "sp_treePositions (Spiral_generate c rng) ! (i * 3) = cos a * r
      \<and> sp_treePositions (Spiral_generate c rng) ! (i * 3 + 2) = sin a * r"
    unfolding Spiral_generate_def r_def a_def
    using Spiral_steps_entry[of i "SPIRAL_PARTICLE_COUNT c" _ c rng] assms(1)
    by (simp add: Let_def)
  then have d: "sqrt ((sp_treePositions (Spiral_generate c rng) ! (i * 3))\<^sup>2
                 + (sp_treePositions (Spiral_generate c rng) ! (i * 3 + 2))\<^sup>2) = r"
    using r by (simp add: circle_point_norm)
  then have "0.1 \<le> sqrt ((sp_treePositions (Spiral_generate c rng) ! (i * 3))\<^sup>2
                 + (sp_treePositions (Spiral_generate c rng) ! (i * 3 + 2))\<^sup>2)"
    using r by simp
  then show ?thesis
    unfolding Let_def using d[unfolded r_def] by blast
qed

theorem C10_spiral_radius_at_least_tenth_witness:
  "(1::nat) < SPIRAL_PARTICLE_COUNT example_constants \<and> TREE_HEIGHT example_constants \<noteq> 0
   \<and> sqrt ((sp_treePositions (Spiral_generate example_constants example_rng) ! 3)\<^sup>2
          + (sp_treePositions (Spiral_generate example_constants example_rng) ! 5)\<^sup>2) = 31 / 10
   \<and> (1 / 10 :: real) \<le>
       sqrt ((sp_treePositions (Spiral_generate example_constants example_rng) ! 3)\<^sup>2
           + (sp_treePositions (Spiral_generate example_constants example_rng) ! 5)\<^sup>2)"
  using C10_spiral_radius_at_least_tenth[of 1 example_constants example_rng]
  by (simp add: example_constants_def Let_def)

subsection \<open>Foliage\<close>












subsection \<open>What the float32 store does to the scatter point\<close>








subsection \<open>A scatter point stored outside the radius\<close>





section \<open>What a frame leaves alone\<close>

lemma useMemo_filled: "useMemo factory (Some v) = Some v"
  by (simp add: useMemo_def)

lemma useMemo_empty: "useMemo factory None = Some (factory ())"
  by (simp add: useMemo_def)

lemma Foliage_useFrame_geometry:
  "fo_geometry (Foliage_useFrame ts st delta f) = fo_geometry f"
  by (simp add: Foliage_useFrame_def Let_def split: option.splits)

lemma Spiral_useFrame_geometry:
  "sp_geometry (Spiral_useFrame ts st delta s) = sp_geometry s"
  by (simp add: Spiral_useFrame_def Let_def split: option.splits)

lemma Foliage_useFrame_colors:
  "map_option (\<lambda>u. (fo_uColorBase u, fo_uColorGold u)) (fo_shaderRef (Foliage_useFrame ts st delta f)) =
   map_option (\<lambda>u. (fo_uColorBase u, fo_uColorGold u)) (fo_shaderRef f)"
  by (simp add: Foliage_useFrame_def Let_def split: option.splits)

lemma Spiral_useFrame_colors:
  "map_option sp_uColor (sp_shaderRef (Spiral_useFrame ts st delta s)) =
   map_option sp_uColor (sp_shaderRef s)"
  by (simp add: Spiral_useFrame_def Let_def split: option.splits)

lemma Ornaments_useFrame_data:
  "or_boxData (Ornaments_useFrame ts st delta ob) = or_boxData ob"
  "or_sphereData (Ornaments_useFrame ts st delta ob) = or_sphereData ob"
  by (simp_all add: Ornaments_useFrame_def Let_def case_prod_beta split: option.splits)

lemma Foliage_event_geometry:
  "fo_geometry f = Some g \<Longrightarrow> fo_geometry (Foliage_event c ev f) = Some g"
  by (cases ev) (simp_all add: Foliage_render_def useMemo_filled Foliage_useFrame_geometry)

lemma Spiral_event_geometry:
  "sp_geometry s = Some g \<Longrightarrow> sp_geometry (Spiral_event c ev s) = Some g"
  by (cases ev) (simp_all add: Spiral_render_def useMemo_filled Spiral_useFrame_geometry)

lemma Foliage_events_geometry:
  "fo_geometry f = Some g \<Longrightarrow> fo_geometry (fold (Foliage_event c) evs f) = Some g"
  by (induction evs arbitrary: f) (simp_all add: Foliage_event_geometry)

lemma Spiral_events_geometry:
  "sp_geometry s = Some g \<Longrightarrow> sp_geometry (fold (Spiral_event c) evs s) = Some g"
  by (induction evs arbitrary: s) (simp_all add: Spiral_event_geometry)

lemma Foliage_first_render:
  "fo_geometry (Foliage_render c rng Foliage_initial) = Some (Foliage_generate c rng)"
  by (simp add: Foliage_render_def Foliage_initial_def useMemo_empty)

lemma Spiral_first_render:
  "sp_geometry (Spiral_render c rng Spiral_initial) = Some (Spiral_generate c rng)"
  by (simp add: Spiral_render_def Spiral_initial_def useMemo_empty)

text \<open>
  C6. The point sets of Foliage and of Spiral are generated by the first render and are
  the same arrays after anything that follows: later renders return the memoized value
  whatever \<open>Math.random()\<close> would then produce, and a frame callback changes nothing but
  the uniforms \<open>uTime\<close>, \<open>uPixelRatio\<close>, \<open>uProgress\<close> and the progress refs; the geometry cell
  (tree positions, scatter positions, per-particle attribute) and the colour uniforms are
  as before the frame. A frame of Ornaments leaves its two data arrays as they were.
\<close>

theorem C6_point_sets_generated_once:
  "fo_geometry (Foliage_render c rng Foliage_initial) = Some (Foliage_generate c rng)
   \<and> fo_geometry (fold (Foliage_event c) evs (Foliage_render c rng Foliage_initial)) =
       Some (Foliage_generate c rng)
   \<and> sp_geometry (Spiral_render c rng Spiral_initial) = Some (Spiral_generate c rng)
   \<and> sp_geometry (fold (Spiral_event c) evs (Spiral_render c rng Spiral_initial)) =
       Some (Spiral_generate c rng)
   \<and> fo_geometry (Foliage_useFrame ts st delta f) = fo_geometry f
   \<and> map_option (\<lambda>u. (fo_uColorBase u, fo_uColorGold u)) (fo_shaderRef (Foliage_useFrame ts st delta f)) =
       map_option (\<lambda>u. (fo_uColorBase u, fo_uColorGold u)) (fo_shaderRef f)
   \<and> sp_geometry (Spiral_useFrame ts st delta s) = sp_geometry s
   \<and> map_option sp_uColor (sp_shaderRef (Spiral_useFrame ts st delta s)) =
       map_option sp_uColor (sp_shaderRef s)
   \<and> or_boxData (Ornaments_useFrame ts st delta ob) = or_boxData ob
   \<and> or_sphereData (Ornaments_useFrame ts st delta ob) = or_sphereData ob"
  using Foliage_events_geometry[OF Foliage_first_render] Spiral_events_geometry[OF Spiral_first_render]
  by (simp add: Foliage_first_render Spiral_first_render Foliage_useFrame_geometry
        Spiral_useFrame_geometry Foliage_useFrame_colors Spiral_useFrame_colors
        Ornaments_useFrame_data)

section \<open>The overlay button\<close>

text \<open>
  C7. The Overlay renders exactly one button, and no other element has a click handler;
  a click on the button runs \<open>onToggle\<close> once; the text of the button is "RELEASE MEMORY"
  when \<open>treeState\<close> is \<open>TREE_SHAPE\<close> and "RESTORE ORDER" otherwise.
\<close>

theorem C7_overlay_single_toggle_button:
  "length (buttons (Overlay treeState onToggle)) = 1
   \<and> handlers (Overlay treeState onToggle) = [onToggle]
   \<and> click (hd (buttons (Overlay treeState onToggle))) s = onToggle s
   \<and> textContent (hd (buttons (Overlay treeState onToggle))) =
       (if treeState = TREE_SHAPE then ''RELEASE MEMORY'' else ''RESTORE ORDER'')"
  by (simp add: Overlay_def)

section \<open>The error boundary\<close>

lemma render_ImageErrorBoundary_failed:
  "render_ImageErrorBoundary st (Inl (Failed e)) = (\<lparr>hasError = True\<rparr>, Inr None)"
  by (cases st) (simp add: render_ImageErrorBoundary_def ImageErrorBoundary_render_def
      getDerivedStateFromError_def)

lemma render_ImageErrorBoundary_hasError:
  "render_ImageErrorBoundary \<lparr>hasError = True\<rparr> memories = (\<lparr>hasError = True\<rparr>, Inr None)"
  by (simp add: render_ImageErrorBoundary_def ImageErrorBoundary_render_def)

text \<open>
  C5. When rendering Memories throws an error, the boundary takes the state
  \<open>hasError = true\<close> and renders \<open>null\<close>; nothing is thrown out of it, and the tree system
  renders with Foliage, Ornaments, Spiral and Star in place and nothing where Memories
  would be. From then on the boundary renders \<open>null\<close> whatever Memories would do.
\<close>

theorem C5_boundary_suppresses_memories_error:
  "render_ImageErrorBoundary st (Inl (Failed e)) = (\<lparr>hasError = True\<rparr>, Inr None)
   \<and> Experience_tree_system ImageErrorBoundary_constructor
        (Inr foliage) (Inr ornaments) (Inr spiral) (Inl (Failed e)) (Inr star) =
       (\<lparr>hasError = True\<rparr>, Inr [Some foliage, Some ornaments, Some spiral, None, Some star])
   \<and> Experience_tree_system \<lparr>hasError = True\<rparr>
        (Inr foliage) (Inr ornaments) (Inr spiral) memories (Inr star) =
       (\<lparr>hasError = True\<rparr>, Inr [Some foliage, Some ornaments, Some spiral, None, Some star])"
  by (simp add: Experience_tree_system_def render_ImageErrorBoundary_failed
        render_ImageErrorBoundary_hasError Suspense_def)


end
